theory Spec2Isabelle
  imports Main "HOL-Library.AList"
begin

section \<open>JavaScript values and plain data objects\<close>

text \<open>
  The configuration handled by \<^verbatim>\<open>fileService.ts\<close> and \<^verbatim>\<open>config.ts\<close> is JSON data read from
  the workspace's config file. A value is one of the JSON kinds, or \<^verbatim>\<open>undefined\<close> (what a
  property read gives when it finds nothing), or a built-in member that a read finds on
  a prototype (\<^verbatim>\<open>Object.prototype.toString\<close>, say), known by its name. Numbers are the
  integer-valued ones (ports, concurrency, timeouts); \<^verbatim>\<open>NaN\<close> is kept because \<^verbatim>\<open>parseInt\<close>
  can produce it. A string is the UTF-8 encoding of a well-formed JavaScript string.
  An object is an association list of its own properties in insertion order; a
  property read takes the first binding of the key.
\<close>

datatype jsval =
    JUndefined
  | JNull
  | JBool bool
  | JNum int
  | JNaN
  | JStr string
  | JArr "jsval list"
  | JObj "(string \<times> jsval) list"
  | JBuiltin string

type_synonym obj = "(string \<times> jsval) list"

text \<open>JavaScript truthiness, as tested by \<^verbatim>\<open>if (x)\<close>, \<^verbatim>\<open>!x\<close>, \<^verbatim>\<open>a && b\<close> and \<^verbatim>\<open>a || b\<close>.\<close>

fun truthy :: "jsval \<Rightarrow> bool" where
  "truthy JUndefined = False"
| "truthy JNull = False"
| "truthy (JBool b) = b"
| "truthy (JNum n) = (n \<noteq> 0)"
| "truthy JNaN = False"
| "truthy (JStr s) = (s \<noteq> [])"
| "truthy (JArr xs) = True"
| "truthy (JObj kvs) = True"
| "truthy (JBuiltin name) = True"

text \<open>
  \<^verbatim>\<open>Array.isArray(x)\<close>. It is applied to reads of the property \<^verbatim>\<open>ignore\<close>; the one built-in
  that is an array, \<^verbatim>\<open>Array.prototype\<close>, is found under the name \<^verbatim>\<open>__proto__\<close> only.
\<close>

fun isArray :: "jsval \<Rightarrow> bool" where
  "isArray (JArr xs) = True"
| "isArray v = False"

text \<open>The elements of an array value (nothing for any other value).\<close>

fun elements :: "jsval \<Rightarrow> jsval list" where
  "elements (JArr xs) = xs"
| "elements v = []"

text \<open>
  The members that every plain object inherits from \<^verbatim>\<open>Object.prototype\<close>: a read of one
  of these names on an object without an own property of that name finds the built-in
  member, which is neither \<^verbatim>\<open>undefined\<close> nor falsy.
\<close>

definition object_prototype_names :: "string list" where
  "object_prototype_names =
     [''constructor'', ''__defineGetter__'', ''__defineSetter__'', ''hasOwnProperty'',
      ''__lookupGetter__'', ''__lookupSetter__'', ''isPrototypeOf'',
      ''propertyIsEnumerable'', ''toString'', ''valueOf'', ''__proto__'',
      ''toLocaleString'']"

definition inherited_object :: "string \<Rightarrow> jsval" where
  "inherited_object key =
     (if key \<in> set object_prototype_names then JBuiltin key else JUndefined)"

text \<open>
  \<^verbatim>\<open>config[key]\<close> on a plain object, one whose prototype is \<^verbatim>\<open>Object.prototype\<close>: the own
  property, else the inherited member, else \<^verbatim>\<open>undefined\<close>.
\<close>

definition get_prop :: "obj \<Rightarrow> string \<Rightarrow> jsval" where
  "get_prop ob key = (case map_of ob key of None \<Rightarrow> inherited_object key | Some v \<Rightarrow> v)"

text \<open>
  \<^verbatim>\<open>config[key] = value\<close> on a plain object, for an own key or a key other than
  \<^verbatim>\<open>__proto__\<close>: an existing key keeps its place, a new key is appended. (The assignment
  that can meet the setter of \<^verbatim>\<open>__proto__\<close> is \<open>assign\<close> below.)
\<close>

definition set_prop :: "obj \<Rightarrow> string \<Rightarrow> jsval \<Rightarrow> obj" where
  "set_prop ob key v = AList.update key v ob"

text \<open>\<^verbatim>\<open>delete config[key]\<close>.\<close>

definition delete_prop :: "obj \<Rightarrow> string \<Rightarrow> obj" where
  "delete_prop ob key = AList.delete key ob"

text \<open>Decimal rendering of an array index, for the keys of arrays and strings.\<close>

function show_nat :: "nat \<Rightarrow> string" where
  "show_nat n =
     (if n < 10 then [char_of (48 + n)]
      else show_nat (n div 10) @ [char_of (48 + n mod 10)])"
  by pat_completeness auto
termination
  by (relation "measure (\<lambda>n. n)") auto

section \<open>Errors and external collaborators\<close>

text \<open>
  Every \<^verbatim>\<open>throw new Error(...)\<close> of the configuration code is one constructor, so that a
  failing call is a value. \<^verbatim>\<open>TypeError\<close> is what the runtime raises when a string method is
  applied to a field that is not a string, or when a member that is not a function is
  called.
\<close>

datatype error =
    UnknownProfile string
  | RemoteNotFound jsval
  | EnvVarNotFound string
  | IgnoreFileNotFound jsval
  | IgnoreFileReadError string string
  | CachedContentNotString string
  | ValidationFailed jsval
  | TypeError string

datatype fs_entry = NoFile | Unreadable string | FileContent string

text \<open>
  What the code reaches outside itself: the user's \<^verbatim>\<open>remote\<close> settings, the process
  environment, the file system, the path helpers (\<^verbatim>\<open>helper\<close>, \<^verbatim>\<open>upath\<close>, Node's \<^verbatim>\<open>path\<close>),
  the \<^verbatim>\<open>ssh-config\<close> parser with its \<^verbatim>\<open>find({ Host })\<close>, \<^verbatim>\<open>parseInt(value, 10)\<close>, and the glob
  matcher built by \<^verbatim>\<open>Ignore.from\<close>. None of them is defined in the source files; each is a
  parameter. An ssh-config line is its \<^verbatim>\<open>param\<close> (empty when the line has none) and its
  \<^verbatim>\<open>value\<close>.

  Two parameters describe the runtime's strings and prototypes. \<open>stringUnits\<close> gives the
  UTF-16 code units of a string, each as a string of its own: they are what indexing a
  string yields. \<open>protoMember\<close> says, for a value that is not a plain object (an array, a
  string, a number, a boolean, a built-in), whether its prototype chain has a member of
  a given name; which names \<^verbatim>\<open>Array.prototype\<close> and \<^verbatim>\<open>String.prototype\<close> carry depends on the
  version of the runtime.
\<close>

record env =
  userRemotes :: "jsval \<Rightarrow> obj option"
  processEnv :: "string \<Rightarrow> string option"
  fsRead :: "string \<Rightarrow> fs_entry"
  replaceHomePath :: "string \<Rightarrow> string"
  resolvePath :: "string \<Rightarrow> string \<Rightarrow> string"
  upath_normalize :: "string \<Rightarrow> string"
  upath_relative :: "jsval \<Rightarrow> string \<Rightarrow> string"
  path_normalize :: "string \<Rightarrow> string"
  path_relative :: "string \<Rightarrow> string \<Rightarrow> string"
  sshConfigFind :: "string \<Rightarrow> jsval \<Rightarrow> (string \<times> string) list option"
  parseInt10 :: "jsval \<Rightarrow> jsval"
  ignores :: "jsval list \<Rightarrow> string \<Rightarrow> bool"
  stringUnits :: "string \<Rightarrow> string list"
  protoMember :: "jsval \<Rightarrow> string \<Rightarrow> bool"

text \<open>A field that the code uses as a string: anything else raises \<^verbatim>\<open>TypeError\<close>.\<close>

fun as_string :: "string \<Rightarrow> jsval \<Rightarrow> error + string" where
  "as_string field (JStr s) = Inr s"
| "as_string field v = Inl (TypeError field)"

section \<open>Property reads and writes on any value\<close>

text \<open>
  The own enumerable properties of a value, as \<^verbatim>\<open>Object.keys\<close> and \<^verbatim>\<open>Object.entries\<close>
  enumerate them: the bindings of an object, the indexed elements of an array, the
  indexed code units of a string, nothing for a number, a boolean or a built-in.
\<close>

fun own_entries :: "env \<Rightarrow> jsval \<Rightarrow> (string \<times> jsval) list" where
  "own_entries e (JObj kvs) = kvs"
| "own_entries e (JArr xs) = zip (map show_nat [0..<length xs]) xs"
| "own_entries e (JStr s) =
     zip (map show_nat [0..<length (stringUnits e s)]) (map JStr (stringUnits e s))"
| "own_entries e v = []"

definition keys_of :: "env \<Rightarrow> jsval \<Rightarrow> string list" where
  "keys_of e v = remdups (map fst (own_entries e v))"

text \<open>
  \<^verbatim>\<open>source[key]\<close> on any value that is not \<^verbatim>\<open>null\<close> or \<^verbatim>\<open>undefined\<close>: the own property; else,
  for an array or a string, its \<^verbatim>\<open>length\<close>; else what the prototype chain has, which for
  a plain object is \<^verbatim>\<open>Object.prototype\<close>.
\<close>

definition member :: "env \<Rightarrow> jsval \<Rightarrow> string \<Rightarrow> jsval" where
  "member e v key =
     (case map_of (own_entries e v) key of
        Some x \<Rightarrow> x
      | None \<Rightarrow>
          (case v of
             JObj kvs \<Rightarrow> inherited_object key
           | JArr xs \<Rightarrow>
               (if key = ''length'' then JNum (int (length xs))
                else if protoMember e v key then JBuiltin key else JUndefined)
           | JStr s \<Rightarrow>
               (if key = ''length'' then JNum (int (length (stringUnits e s)))
                else if protoMember e v key then JBuiltin key else JUndefined)
           | _ \<Rightarrow> (if protoMember e v key then JBuiltin key else JUndefined)))"

text \<open>
  An object whose prototype may have been replaced. \<^verbatim>\<open>mergeProfile\<close> builds its result by
  assignments \<^verbatim>\<open>res[key] = source[key]\<close>, and the key \<^verbatim>\<open>__proto__\<close>, when \<^verbatim>\<open>res\<close> has no own
  property of that name, reaches the setter that \<^verbatim>\<open>Object.prototype\<close> defines: it makes
  an object or \<^verbatim>\<open>null\<close> the prototype of \<^verbatim>\<open>res\<close> and ignores any other value. (JSON data
  can have an own property named \<^verbatim>\<open>__proto__\<close>: \<^verbatim>\<open>JSON.parse\<close> and the object spread define
  own properties and never call the setter.)
\<close>

datatype proto = ObjectPrototype | NullPrototype | ValuePrototype jsval

record jsobject =
  own_props :: obj
  prototype :: proto

text \<open>\<^verbatim>\<open>{ ...config }\<close> copies the own properties into a plain object.\<close>

definition plain :: "obj \<Rightarrow> jsobject" where
  "plain ob = \<lparr>own_props = ob, prototype = ObjectPrototype\<rparr>"

text \<open>\<^verbatim>\<open>config[key]\<close>: the own property, else what the prototype chain has.\<close>

definition read :: "env \<Rightarrow> jsobject \<Rightarrow> string \<Rightarrow> jsval" where
  "read e ob key =
     (case map_of (own_props ob) key of
        Some v \<Rightarrow> v
      | None \<Rightarrow>
          (case prototype ob of
             ObjectPrototype \<Rightarrow> inherited_object key
           | NullPrototype \<Rightarrow> JUndefined
           | ValuePrototype pv \<Rightarrow> member e pv key))"

text \<open>
  Whether an assignment to \<^verbatim>\<open>__proto__\<close> on an object without an own property of that
  name finds the setter: it does unless the chain ends before \<^verbatim>\<open>Object.prototype\<close> or an
  object on the chain has a data property of that name.
\<close>

definition reaches_proto_setter :: "env \<Rightarrow> jsobject \<Rightarrow> bool" where
  "reaches_proto_setter e ob =
     (case prototype ob of
        ObjectPrototype \<Rightarrow> True
      | NullPrototype \<Rightarrow> False
      | ValuePrototype pv \<Rightarrow> map_of (own_entries e pv) ''__proto__'' = None)"

text \<open>
  \<^verbatim>\<open>res[key] = value\<close>. An own property is updated in place. Otherwise the key
  \<^verbatim>\<open>__proto__\<close>, when it finds the setter, replaces the prototype (by an object or by
  \<^verbatim>\<open>null\<close>; other values are ignored); any other key becomes a new own property.
\<close>

definition assign :: "env \<Rightarrow> jsobject \<Rightarrow> string \<Rightarrow> jsval \<Rightarrow> jsobject" where
  "assign e ob key v =
     (if map_of (own_props ob) key \<noteq> None then
        ob\<lparr>own_props := AList.update key v (own_props ob)\<rparr>
      else if key = ''__proto__'' \<and> reaches_proto_setter e ob then
        (case v of
           JObj kvs \<Rightarrow> ob\<lparr>prototype := ValuePrototype v\<rparr>
         | JArr xs \<Rightarrow> ob\<lparr>prototype := ValuePrototype v\<rparr>
         | JBuiltin name \<Rightarrow> ob\<lparr>prototype := ValuePrototype v\<rparr>
         | JNull \<Rightarrow> ob\<lparr>prototype := NullPrototype\<rparr>
         | _ \<Rightarrow> ob)
      else ob\<lparr>own_props := own_props ob @ [(key, v)]\<rparr>)"

section \<open>config.ts: validateConfig\<close>

text \<open>
  \<^verbatim>\<open>configScheme.validate(config, options)\<close> is the Joi library's: it is taken as a parameter
  that returns the error's message when the schema rejects the configuration and
  nothing when it accepts it. \<^verbatim>\<open>validateConfig\<close> wraps the outcome in an object with a
  \<^verbatim>\<open>message\<close> field in both cases.
\<close>

type_synonym schema_validate = "obj \<Rightarrow> string option"

definition validateConfig :: "schema_validate \<Rightarrow> obj \<Rightarrow> jsval" where
  "validateConfig validate config =
     (case validate config of
        Some error_message \<Rightarrow> JObj [(''message'', JStr error_message)]
      | None \<Rightarrow> JObj [(''message'', JStr ''Validation passed.'')])"

section \<open>fileService.ts: mergeProfile\<close>

text \<open>
  The calls of the logger in \<^verbatim>\<open>mergeProfile\<close>, by level and message (the attached data is
  left out): \<^verbatim>\<open>info\<close> at the start and at the end, \<^verbatim>\<open>debug\<close> for the concatenation of the
  \<^verbatim>\<open>ignore\<close> arrays and for every other key, \<^verbatim>\<open>warn\<close> for an \<^verbatim>\<open>ignore\<close> that is not an array
  on one side.
\<close>

datatype log_entry =
    InfoStartingProfileMerge
  | DebugMergingIgnoreArrays
  | WarnInvalidIgnoreFormat
  | DebugMergingProperty string
  | InfoProfilesMerged

text \<open>
  One iteration of \<^verbatim>\<open>Object.keys(source).forEach\<close> in \<^verbatim>\<open>mergeProfile\<close>, on the result so far
  and the log so far. The key \<^verbatim>\<open>ignore\<close> concatenates when both sides are arrays;
  otherwise it logs a warning and the result takes the source's value if that is an
  array and the empty array if it is not. Every other key is assigned from the source.
\<close>

definition mergeProfile_step ::
    "env \<Rightarrow> jsval \<Rightarrow> jsobject \<times> log_entry list \<Rightarrow> string \<Rightarrow> jsobject \<times> log_entry list" where
  "mergeProfile_step e source st key =
     (let res = fst st; logged = snd st in
      if key = ''ignore'' then
        (case (read e res ''ignore'', member e source ''ignore'') of
           (JArr a, JArr b) \<Rightarrow>
             (assign e res ''ignore'' (JArr (a @ b)), logged @ [DebugMergingIgnoreArrays])
         | (_, sv) \<Rightarrow>
             (assign e res ''ignore'' (if isArray sv then sv else JArr []),
              logged @ [WarnInvalidIgnoreFormat]))
      else (assign e res key (member e source key), logged @ [DebugMergingProperty key]))"

text \<open>
  \<^verbatim>\<open>mergeProfile\<close>: the copy \<^verbatim>\<open>{ ...target }\<close> without \<^verbatim>\<open>profiles\<close>, then the iterations. It
  returns the merged configuration; the second component is what it has logged. No
  statement of it throws.
\<close>

definition mergeProfile :: "env \<Rightarrow> obj \<Rightarrow> jsval \<Rightarrow> jsobject \<times> log_entry list" where
  "mergeProfile e target source =
     (let st = foldl (mergeProfile_step e source)
                 (plain (delete_prop target ''profiles''), [InfoStartingProfileMerge])
                 (keys_of e source)
      in (fst st, snd st @ [InfoProfilesMerged]))"

section \<open>app.ts: the shared file cache\<close>

text \<open>
  \<^verbatim>\<open>app.fsCache = LRU({ max: 6 })\<close>. The cache is a list of at most six entries, the most
  recently used first: \<^verbatim>\<open>get\<close> refreshes the entry it finds, \<^verbatim>\<open>has\<close> does not, and
  \<^verbatim>\<open>set\<close> drops the least recently used entry beyond the bound.
\<close>

type_synonym cache = "(string \<times> string) list"

definition cache_has :: "cache \<Rightarrow> string \<Rightarrow> bool" where
  "cache_has c key = (map_of c key \<noteq> None)"

definition cache_get :: "cache \<Rightarrow> string \<Rightarrow> string option \<times> cache" where
  "cache_get c key =
     (case map_of c key of
        None \<Rightarrow> (None, c)
      | Some v \<Rightarrow> (Some v, (key, v) # AList.delete key c))"

definition cache_set :: "cache \<Rightarrow> string \<Rightarrow> string \<Rightarrow> cache" where
  "cache_set c key v = take 6 ((key, v) # AList.delete key c)"

section \<open>fileService.ts: configuration resolution\<close>

text \<open>\<^verbatim>\<open>Object.entries(remote)\<close> of a plain object.\<close>

definition entries_of :: "obj \<Rightarrow> (string \<times> jsval) list" where
  "entries_of ob = map (\<lambda>k. (k, get_prop ob k)) (remdups (map fst ob))"

definition chooseDefaultPort :: "jsval \<Rightarrow> int" where
  "chooseDefaultPort protocol = (if protocol = JStr ''ftp'' then 21 else 22)"

text \<open>
  \<^verbatim>\<open>setConfigValue\<close> stores a value only where the read \<^verbatim>\<open>config[key]\<close> gives \<^verbatim>\<open>undefined\<close>:
  not for an own property, and not for a name that the object inherits.
\<close>

definition setConfigValue :: "env \<Rightarrow> obj \<Rightarrow> string \<Rightarrow> jsval \<Rightarrow> obj" where
  "setConfigValue e config key v =
     (if get_prop config key = JUndefined then
        (if key = ''port'' then set_prop config key (parseInt10 e v)
         else set_prop config key v)
      else config)"

text \<open>
  The body of \<^verbatim>\<open>Object.entries(remote).forEach\<close>: \<^verbatim>\<open>rootPath\<close> is skipped, \<^verbatim>\<open>scheme\<close> is
  renamed to \<^verbatim>\<open>protocol\<close>, and the value goes through \<^verbatim>\<open>setConfigValue\<close>.
\<close>

definition remoteTargetKey :: "string \<Rightarrow> string" where
  "remoteTargetKey key = (if key = ''scheme'' then ''protocol'' else key)"

definition mergeRemoteEntry :: "env \<Rightarrow> obj \<Rightarrow> string \<times> jsval \<Rightarrow> obj" where
  "mergeRemoteEntry e mergedConfig entry =
     (if fst entry = ''rootPath'' then mergedConfig
      else setConfigValue e mergedConfig (remoteTargetKey (fst entry)) (snd entry))"

text \<open>
  The block \<^verbatim>\<open>if (config.remote) { ... }\<close> of \<^verbatim>\<open>mergeConfigWithExternalRefer\<close>: it reads
  \<^verbatim>\<open>config.remote\<close> and works on \<^verbatim>\<open>mergedConfig\<close>, the copy \<^verbatim>\<open>{ ...config }\<close>.
\<close>

definition mergeRemote :: "env \<Rightarrow> jsobject \<Rightarrow> error + obj" where
  "mergeRemote e config =
     (let mergedConfig = own_props config in
      if truthy (read e config ''remote'') then
        (case userRemotes e (read e config ''remote'') of
           None \<Rightarrow> Inl (RemoteNotFound (read e config ''remote''))
         | Some remote \<Rightarrow> Inr (foldl (mergeRemoteEntry e) mergedConfig (entries_of remote)))
      else Inr mergedConfig)"

definition DEFAULT_SSHCONFIG_FILE :: string where
  "DEFAULT_SSHCONFIG_FILE = ''~/.ssh/config''"

definition sshKeyMapping :: "(string \<times> string) list" where
  "sshKeyMapping =
     [(''hostname'', ''host''),
      (''port'', ''port''),
      (''user'', ''username''),
      (''identityfile'', ''privateKeyPath''),
      (''serveraliveinterval'', ''keepalive''),
      (''connecttimeout'', ''connTimeout'')]"

text \<open>
  \<^verbatim>\<open>sshKeyMapping.get(line.param.toLowerCase())\<close>. Folding the ASCII letters decides the
  lookup, whose keys are ASCII: \<^verbatim>\<open>toLowerCase\<close> turns a character outside ASCII into
  characters that are not all ASCII, except the Kelvin sign, which becomes \<^verbatim>\<open>k\<close>, and no
  key of the mapping contains a \<^verbatim>\<open>k\<close>.
\<close>

definition lower_ascii :: "char \<Rightarrow> char" where
  "lower_ascii c =
     (if 65 \<le> (of_char c :: nat) \<and> (of_char c :: nat) \<le> 90
      then char_of ((of_char c :: nat) + 32) else c)"

definition sshTargetKey :: "string \<Rightarrow> string option" where
  "sshTargetKey param = map_of sshKeyMapping (map lower_ascii param)"

text \<open>The body of \<^verbatim>\<open>section.config.forEach\<close>: \<^verbatim>\<open>hostname\<close> overwrites, the rest is set if undefined.\<close>

definition mergeSshLine :: "env \<Rightarrow> obj \<Rightarrow> string \<times> string \<Rightarrow> obj" where
  "mergeSshLine e mergedConfig line =
     (if fst line = [] then mergedConfig
      else
        (case sshTargetKey (fst line) of
           None \<Rightarrow> mergedConfig
         | Some key \<Rightarrow>
             (if key = ''host'' then set_prop mergedConfig key (JStr (snd line))
              else setConfigValue e mergedConfig key (JStr (snd line)))))"

text \<open>
  The SSH part of \<^verbatim>\<open>mergeConfigWithExternalRefer\<close>, entered when \<^verbatim>\<open>config.protocol\<close> is
  \<^verbatim>\<open>sftp\<close>: the file's content comes from the cache or from disk, a read failure returns
  the configuration merged so far.
\<close>

definition mergeSshConfig ::
    "env \<Rightarrow> cache \<Rightarrow> jsobject \<Rightarrow> obj \<Rightarrow> (error + obj) \<times> cache" where
  "mergeSshConfig e c config mergedConfig =
     (case as_string ''sshConfigPath''
             (if truthy (read e config ''sshConfigPath'')
              then read e config ''sshConfigPath'' else JStr DEFAULT_SSHCONFIG_FILE) of
        Inl err \<Rightarrow> (Inl err, c)
      | Inr p \<Rightarrow>
          (let sshConfigPath = replaceHomePath e p;
               got = cache_get c sshConfigPath;
               loaded =
                 (case fst got of
                    Some content \<Rightarrow>
                      (if content \<noteq> [] then Some (content, snd got)
                       else (case fsRead e sshConfigPath of
                               FileContent s \<Rightarrow> Some (s, cache_set (snd got) sshConfigPath s)
                             | _ \<Rightarrow> None))
                  | None \<Rightarrow>
                      (case fsRead e sshConfigPath of
                         FileContent s \<Rightarrow> Some (s, cache_set (snd got) sshConfigPath s)
                       | _ \<Rightarrow> None))
           in case loaded of
                None \<Rightarrow> (Inr mergedConfig, snd got)
              | Some (sshConfigContent, c') \<Rightarrow>
                  (case sshConfigFind e sshConfigContent (get_prop mergedConfig ''host'') of
                     None \<Rightarrow> (Inr mergedConfig, c')
                   | Some lines \<Rightarrow> (Inr (foldl (mergeSshLine e) mergedConfig lines), c'))))"

definition mergeConfigWithExternalRefer ::
    "env \<Rightarrow> cache \<Rightarrow> jsobject \<Rightarrow> (error + obj) \<times> cache" where
  "mergeConfigWithExternalRefer e c config =
     (case mergeRemote e config of
        Inl err \<Rightarrow> (Inl err, c)
      | Inr mergedConfig \<Rightarrow>
          (if read e config ''protocol'' \<noteq> JStr ''sftp'' then (Inr mergedConfig, c)
           else mergeSshConfig e c config mergedConfig))"

text \<open>The steps of \<^verbatim>\<open>getCompleteConfig\<close> after the merge, in the source's order.\<close>

definition normalizeRemotePath :: "env \<Rightarrow> obj \<Rightarrow> error + obj" where
  "normalizeRemotePath e mergedConfig =
     (case as_string ''remotePath'' (get_prop mergedConfig ''remotePath'') of
        Inl err \<Rightarrow> Inl err
      | Inr s \<Rightarrow> Inr (set_prop mergedConfig ''remotePath'' (JStr (upath_normalize e s))))"

definition resolveConfigPath :: "env \<Rightarrow> string \<Rightarrow> string \<Rightarrow> obj \<Rightarrow> error + obj" where
  "resolveConfigPath e workspace key mergedConfig =
     (if truthy (get_prop mergedConfig key) then
        (case as_string key (get_prop mergedConfig key) of
           Inl err \<Rightarrow> Inl err
         | Inr s \<Rightarrow> Inr (set_prop mergedConfig key (JStr (resolvePath e workspace s))))
      else Inr mergedConfig)"

definition resolveAgent :: "env \<Rightarrow> obj \<Rightarrow> error + obj" where
  "resolveAgent e mergedConfig =
     (if truthy (get_prop mergedConfig ''agent'') then
        (case as_string ''agent'' (get_prop mergedConfig ''agent'') of
           Inl err \<Rightarrow> Inl err
         | Inr agent \<Rightarrow>
             (if take 1 agent = ''$'' then
                (let envVarName = drop 1 agent in
                 case processEnv e envVarName of
                   None \<Rightarrow> Inl (EnvVarNotFound envVarName)
                 | Some envVarValue \<Rightarrow>
                     (if envVarValue = [] then Inl (EnvVarNotFound envVarName)
                      else Inr (set_prop mergedConfig ''agent'' (JStr envVarValue))))
              else Inr mergedConfig))
      else Inr mergedConfig)"

definition completeMerged :: "env \<Rightarrow> string \<Rightarrow> obj \<Rightarrow> error + obj" where
  "completeMerged e workspace mergedConfig =
     (case normalizeRemotePath e mergedConfig of
        Inl err \<Rightarrow> Inl err
      | Inr c1 \<Rightarrow>
          (case resolveConfigPath e workspace ''privateKeyPath'' c1 of
             Inl err \<Rightarrow> Inl err
           | Inr c2 \<Rightarrow>
               (case resolveConfigPath e workspace ''ignoreFile'' c2 of
                  Inl err \<Rightarrow> Inl err
                | Inr c3 \<Rightarrow> resolveAgent e c3)))"

definition getCompleteConfig ::
    "env \<Rightarrow> string \<Rightarrow> cache \<Rightarrow> jsobject \<Rightarrow> (error + obj) \<times> cache" where
  "getCompleteConfig e workspace c config =
     (case mergeConfigWithExternalRefer e c config of
        (Inl err, c') \<Rightarrow> (Inl err, c')
      | (Inr mergedConfig, c') \<Rightarrow> (completeMerged e workspace mergedConfig, c'))"

section \<open>fileService.ts: ignore rules\<close>

text \<open>\<^verbatim>\<open>content.split(/\r?\n/g)\<close>.\<close>

fun splitLines :: "string \<Rightarrow> string list" where
  "splitLines [] = [[]]"
| "splitLines (c # cs) =
     (if c = CHR 0x0A then [] # splitLines cs
      else if c = CHR 0x0D \<and> take 1 cs = [CHR 0x0A] then splitLines cs
      else (case splitLines cs of
              [] \<Rightarrow> [[c]]
            | l # ls \<Rightarrow> (c # l) # ls))"

text \<open>
  The characters that \<^verbatim>\<open>String.prototype.trim\<close> strips, by their UTF-8 encodings. One
  byte: TAB, LF, VT, FF, CR and the space. Two bytes: U+00A0. Three bytes: U+1680,
  U+2000 to U+200A, U+2028, U+2029, U+202F, U+205F, U+3000 and U+FEFF.
\<close>

definition is_space :: "char \<Rightarrow> bool" where
  "is_space c = (c = CHR 0x20 \<or> c = CHR 0x09 \<or> c = CHR 0x0A \<or> c = CHR 0x0B
                 \<or> c = CHR 0x0C \<or> c = CHR 0x0D)"

definition is_space3 :: "char \<Rightarrow> char \<Rightarrow> char \<Rightarrow> bool" where
  "is_space3 b1 b2 b3 =
     ((b1 = CHR 0xE1 \<and> b2 = CHR 0x9A \<and> b3 = CHR 0x80)
      \<or> (b1 = CHR 0xE2 \<and> b2 = CHR 0x80
          \<and> (128 \<le> (of_char b3 :: nat) \<and> (of_char b3 :: nat) \<le> 138
             \<or> b3 = CHR 0xA8 \<or> b3 = CHR 0xA9 \<or> b3 = CHR 0xAF))
      \<or> (b1 = CHR 0xE2 \<and> b2 = CHR 0x81 \<and> b3 = CHR 0x9F)
      \<or> (b1 = CHR 0xE3 \<and> b2 = CHR 0x80 \<and> b3 = CHR 0x80)
      \<or> (b1 = CHR 0xEF \<and> b2 = CHR 0xBB \<and> b3 = CHR 0xBF))"

text \<open>A line that consists of such characters only: \<^verbatim>\<open>line.trim()\<close> is the empty string.\<close>

fun all_space :: "string \<Rightarrow> bool" where
  "all_space [] = True"
| "all_space (c # cs) =
     (if is_space c then all_space cs
      else if c = CHR 0xC2 then
        (case cs of
           d # ds \<Rightarrow> d = CHR 0xA0 \<and> all_space ds
         | [] \<Rightarrow> False)
      else
        (case cs of
           d # f # fs \<Rightarrow> is_space3 c d f \<and> all_space fs
         | _ \<Rightarrow> False))"

text \<open>\<^verbatim>\<open>line.trim()\<close> is truthy when the line is not of that kind.\<close>

definition nonblank :: "string \<Rightarrow> bool" where
  "nonblank line = (\<not> all_space line)"

text \<open>
  \<^verbatim>\<open>filesIgnoredFromConfig\<close>: the configuration's \<^verbatim>\<open>ignore\<close> array, followed by the non-blank
  lines of the ignore file when one is named. The file's content comes from the cache
  or from disk; a named file that does not exist is an error, and a name that is not a
  string names no file.
\<close>

definition filesIgnoredFromConfig :: "env \<Rightarrow> cache \<Rightarrow> obj \<Rightarrow> (error + jsval list) \<times> cache" where
  "filesIgnoredFromConfig e c config =
     (let ignore = (case get_prop config ''ignore'' of JArr xs \<Rightarrow> xs | _ \<Rightarrow> []);
          ignoreFile = get_prop config ''ignoreFile''
      in if \<not> truthy ignoreFile then (Inr ignore, c)
         else
           (case ignoreFile of
              JStr p \<Rightarrow>
                (if cache_has c p then
                   (case cache_get c p of
                      (Some cachedContent, c') \<Rightarrow>
                        (Inr (ignore @ map JStr (filter nonblank (splitLines cachedContent))), c')
                    | (None, c') \<Rightarrow> (Inl (CachedContentNotString p), c'))
                 else
                   (case fsRead e p of
                      FileContent s \<Rightarrow>
                        (Inr (ignore @ map JStr (filter nonblank (splitLines s))), cache_set c p s)
                    | Unreadable msg \<Rightarrow> (Inl (IgnoreFileReadError p msg), c)
                    | NoFile \<Rightarrow> (Inl (IgnoreFileNotFound ignoreFile), c)))
            | _ \<Rightarrow> (Inl (IgnoreFileNotFound ignoreFile), c)))"

text \<open>\<^verbatim>\<open>String.prototype.startsWith\<close>.\<close>

definition startsWith :: "string \<Rightarrow> string \<Rightarrow> bool" where
  "startsWith s p = (take (length p) s = p)"

text \<open>
  The closure returned by \<^verbatim>\<open>_createIgnoreFn\<close>: \<^verbatim>\<open>baseDir\<close> is the service's base directory,
  \<^verbatim>\<open>remotePath\<close> is \<^verbatim>\<open>config.remotePath\<close>, \<^verbatim>\<open>patterns\<close> the list handed to \<^verbatim>\<open>Ignore.from\<close>.
\<close>

definition ignoreFn :: "env \<Rightarrow> string \<Rightarrow> jsval \<Rightarrow> jsval list \<Rightarrow> string \<Rightarrow> bool" where
  "ignoreFn e baseDir remotePath patterns fsPath =
     (let normalizedPath = path_normalize e fsPath;
          relativePath =
            (if startsWith normalizedPath baseDir then path_relative e baseDir fsPath
             else upath_relative e remotePath fsPath)
      in relativePath \<noteq> [] \<and> ignores e patterns relativePath)"

definition createIgnoreFn ::
    "env \<Rightarrow> string \<Rightarrow> cache \<Rightarrow> obj \<Rightarrow> (error + (string \<Rightarrow> bool) option) \<times> cache" where
  "createIgnoreFn e baseDir c config =
     (case filesIgnoredFromConfig e c config of
        (Inl err, c') \<Rightarrow> (Inl err, c')
      | (Inr ignoreConfig, c') \<Rightarrow>
          (if length ignoreConfig \<le> 0 then (Inr None, c')
           else (Inr (Some (ignoreFn e baseDir (get_prop config ''remotePath'') ignoreConfig)), c')))"

section \<open>fileService.ts: the FileService\<close>

text \<open>
  A \<^verbatim>\<open>ServiceConfig\<close> is the resolved object with its \<^verbatim>\<open>ignore\<close> property replaced by the
  compiled predicate (or \<^verbatim>\<open>null\<close>): \<open>sc_fields\<close> holds every other property.
\<close>

record service_config =
  sc_fields :: obj
  sc_ignore :: "(string \<Rightarrow> bool) option"

text \<open>
  The fields of the class that the operations below read or write. Schedulers and tasks
  are referred to by identifiers; \<^verbatim>\<open>_pendingTransferTasks\<close> is a \<^verbatim>\<open>Set\<close>, kept as a list
  without repetition in insertion order. The field names carry the prefix \<open>svc_\<close>.
\<close>

record file_service =
  svc_baseDir :: string
  svc_workspace :: string
  svc_config :: obj
  svc_configValidator :: "(obj \<Rightarrow> jsval) option"
  svc_pendingTransferTasks :: "nat list"
  svc_transferSchedulers :: "nat list"

definition resolveServiceConfig ::
    "env \<Rightarrow> file_service \<Rightarrow> cache \<Rightarrow> obj \<Rightarrow> (error + service_config) \<times> cache" where
  "resolveServiceConfig e fs c fileServiceConfig =
     (let withPort =
            (if get_prop fileServiceConfig ''port'' = JUndefined
             then set_prop fileServiceConfig ''port''
                    (JNum (chooseDefaultPort (get_prop fileServiceConfig ''protocol'')))
             else fileServiceConfig);
          serviceConfig =
            (if get_prop withPort ''protocol'' = JStr ''ftp''
             then set_prop withPort ''concurrency'' (JNum 1)
             else withPort)
      in case createIgnoreFn e (svc_baseDir fs) c serviceConfig of
           (Inl err, c') \<Rightarrow> (Inl err, c')
         | (Inr ignore, c') \<Rightarrow>
             (Inr \<lparr>sc_fields = delete_prop serviceConfig ''ignore'', sc_ignore = ignore\<rparr>, c'))"

text \<open>
  The first part of \<^verbatim>\<open>getConfig\<close>: the configuration that goes into resolution, which is
  the stored one, overlaid with the requested profile when the configuration declares
  profiles and a profile is requested. An absent profile request (\<^verbatim>\<open>null\<close>, the empty
  string) is the empty string. The stored configuration is a plain object.
\<close>

definition hasProfiles :: "env \<Rightarrow> obj \<Rightarrow> bool" where
  "hasProfiles e config =
     (truthy (get_prop config ''profiles'')
      \<and> length (keys_of e (get_prop config ''profiles'')) > 0)"

definition selectProfile :: "env \<Rightarrow> obj \<Rightarrow> string \<Rightarrow> error + jsobject" where
  "selectProfile e config useProfile =
     (if hasProfiles e config \<and> useProfile \<noteq> [] then
        (let profile = member e (get_prop config ''profiles'') useProfile
         in if \<not> truthy profile then Inl (UnknownProfile useProfile)
            else Inr (fst (mergeProfile e config profile)))
      else Inr (plain config))"

text \<open>The validation step of \<^verbatim>\<open>getConfig\<close>: it throws when the validator's result is falsy.\<close>

definition checkValidator :: "file_service \<Rightarrow> obj \<Rightarrow> error + obj" where
  "checkValidator fs completeConfig =
     (case svc_configValidator fs of
        None \<Rightarrow> Inr completeConfig
      | Some validator \<Rightarrow>
          (let error = validator completeConfig
           in if \<not> truthy error then Inl (ValidationFailed error)
              else Inr completeConfig))"

definition getConfig ::
    "env \<Rightarrow> file_service \<Rightarrow> cache \<Rightarrow> string \<Rightarrow> (error + service_config) \<times> cache" where
  "getConfig e fs c useProfile =
     (case selectProfile e (svc_config fs) useProfile of
        Inl err \<Rightarrow> (Inl err, c)
      | Inr selected \<Rightarrow>
          (case getCompleteConfig e (svc_workspace fs) c selected of
             (Inl err, c') \<Rightarrow> (Inl err, c')
           | (Inr completeConfig, c') \<Rightarrow>
               (case checkValidator fs completeConfig of
                  Inl err \<Rightarrow> (Inl err, c')
                | Inr validated \<Rightarrow> resolveServiceConfig e fs c' validated)))"

section \<open>The scheduler behind a transfer handle\<close>

text \<open>
  The value of \<^verbatim>\<open>this\<close> in a method body: the handle that \<^verbatim>\<open>createTransferScheduler\<close> returns
  (an object literal), or the \<^verbatim>\<open>FileService\<close>.
\<close>

datatype receiver = ThisHandle nat | ThisService

text \<open>
  The callback that \<^verbatim>\<open>run()\<close> hands to \<^verbatim>\<open>scheduler.onIdle\<close>: an arrow function, so it keeps the
  \<^verbatim>\<open>this\<close> of \<^verbatim>\<open>run\<close>, the handle and the promise's \<^verbatim>\<open>resolve\<close>.
\<close>

datatype idle_callback = RunIdle receiver nat nat

text \<open>
  Modelled from the spec: the class \<^verbatim>\<open>Scheduler\<close> (\<^verbatim>\<open>./scheduler\<close>) is missing from the source
  files. The spec describes it as a bounded-concurrency task runner, created here with
  \<^verbatim>\<open>autoStart: false\<close>, that holds a FIFO queue of tasks, a concurrency limit, the running
  tasks and the callbacks waiting for it to be idle. Tasks are identifiers.
\<close>

record scheduler =
  sch_concurrency :: nat
  sch_queue :: "nat list"
  sch_running :: "nat list"
  sch_started :: bool
  sch_idle :: "idle_callback list"

datatype event =
    BEFORE_TRANSFER nat
  | AFTER_TRANSFER "string option" nat
  | Uncaught error

text \<open>
  The state that the transfer operations of a \<^verbatim>\<open>FileService\<close> work on: the service, the
  schedulers behind the handles it has handed out (a handle is the index of its
  scheduler), the promises returned by \<^verbatim>\<open>run()\<close> that have resolved, what the event
  emitter has emitted, and the tasks on which \<^verbatim>\<open>cancel()\<close> has been invoked, in order.
\<close>

record world =
  w_service :: file_service
  w_schedulers :: "nat \<Rightarrow> scheduler"
  w_next_handle :: nat
  w_next_promise :: nat
  w_resolved :: "nat list"
  w_emitted :: "event list"
  w_cancel_calls :: "nat list"

definition update_scheduler :: "world \<Rightarrow> nat \<Rightarrow> (scheduler \<Rightarrow> scheduler) \<Rightarrow> world" where
  "update_scheduler w h f = w\<lparr>w_schedulers := (w_schedulers w)(h := f (w_schedulers w h))\<rparr>"

text \<open>\<^verbatim>\<open>Set.prototype.add\<close> and \<^verbatim>\<open>delete\<close> on \<^verbatim>\<open>_pendingTransferTasks\<close>.\<close>

definition pending_add :: "nat list \<Rightarrow> nat \<Rightarrow> nat list" where
  "pending_add ts t = (if t \<in> set ts then ts else ts @ [t])"

definition pending_delete :: "nat list \<Rightarrow> nat \<Rightarrow> nat list" where
  "pending_delete ts t = removeAll t ts"

text \<open>The \<^verbatim>\<open>onTaskStart\<close> and \<^verbatim>\<open>onTaskDone\<close> listeners wired by \<^verbatim>\<open>createTransferScheduler\<close>.\<close>

definition onTaskStart :: "world \<Rightarrow> nat \<Rightarrow> world" where
  "onTaskStart w task =
     w\<lparr>w_service := (w_service w)\<lparr>svc_pendingTransferTasks :=
          pending_add (svc_pendingTransferTasks (w_service w)) task\<rparr>,
       w_emitted := w_emitted w @ [BEFORE_TRANSFER task]\<rparr>"

definition onTaskDone :: "world \<Rightarrow> string option \<Rightarrow> nat \<Rightarrow> world" where
  "onTaskDone w err task =
     w\<lparr>w_service := (w_service w)\<lparr>svc_pendingTransferTasks :=
          pending_delete (svc_pendingTransferTasks (w_service w)) task\<rparr>,
       w_emitted := w_emitted w @ [AFTER_TRANSFER err task]\<rparr>"

text \<open>
  Modelled from the spec: dispatching in the missing \<^verbatim>\<open>Scheduler\<close>. A started scheduler moves
  queued tasks, in FIFO order, into its free slots, up to \<^verbatim>\<open>concurrency\<close> running at once,
  and tells the \<^verbatim>\<open>onTaskStart\<close> listener about each.
\<close>

definition dispatch :: "world \<Rightarrow> nat \<Rightarrow> world" where
  "dispatch w h =
     (let s = w_schedulers w h in
      if sch_started s then
        (let free = sch_concurrency s - length (sch_running s);
             started = take free (sch_queue s);
             w1 = update_scheduler w h
                    (\<lambda>s. s\<lparr>sch_queue := drop free (sch_queue s),
                            sch_running := sch_running s @ started\<rparr>)
         in foldl onTaskStart w1 started)
      else w)"

text \<open>
  Modelled from the spec: \<^verbatim>\<open>size\<close> of the missing \<^verbatim>\<open>Scheduler\<close>, the current count of queued
  plus running tasks.
\<close>

definition scheduler_size :: "world \<Rightarrow> nat \<Rightarrow> nat" where
  "scheduler_size w h = length (sch_queue (w_schedulers w h)) + length (sch_running (w_schedulers w h))"

text \<open>
  Modelled from the spec: \<^verbatim>\<open>empty()\<close> of the missing \<^verbatim>\<open>Scheduler\<close> discards all queued tasks;
  running tasks are unaffected.
\<close>

definition scheduler_empty :: "world \<Rightarrow> nat \<Rightarrow> world" where
  "scheduler_empty w h = update_scheduler w h (\<lambda>s. s\<lparr>sch_queue := []\<rparr>)"

text \<open>
  Modelled from the spec: \<^verbatim>\<open>add(task)\<close> of the missing \<^verbatim>\<open>Scheduler\<close> enqueues the task (which
  a started scheduler with a free slot dispatches).
\<close>

definition scheduler_add :: "world \<Rightarrow> nat \<Rightarrow> nat \<Rightarrow> world" where
  "scheduler_add w h task =
     dispatch (update_scheduler w h (\<lambda>s. s\<lparr>sch_queue := sch_queue s @ [task]\<rparr>)) h"

text \<open>
  Modelled from the spec: \<^verbatim>\<open>start()\<close> of the missing \<^verbatim>\<open>Scheduler\<close> begins dispatching queued
  tasks.
\<close>

definition scheduler_start :: "world \<Rightarrow> nat \<Rightarrow> world" where
  "scheduler_start w h = dispatch (update_scheduler w h (\<lambda>s. s\<lparr>sch_started := True\<rparr>)) h"

text \<open>
  Modelled from the spec: \<^verbatim>\<open>onIdle(cb)\<close> of the missing \<^verbatim>\<open>Scheduler\<close> registers a callback
  that fires once, when the running count and the queue length have both reached zero.
\<close>

definition scheduler_onIdle :: "world \<Rightarrow> nat \<Rightarrow> idle_callback \<Rightarrow> world" where
  "scheduler_onIdle w h cb = update_scheduler w h (\<lambda>s. s\<lparr>sch_idle := sch_idle s @ [cb]\<rparr>)"

section \<open>fileService.ts: transfer schedulers\<close>

text \<open>
  The members that \<^verbatim>\<open>this\<close> can supply. The handle is the object literal of
  \<^verbatim>\<open>createTransferScheduler\<close>; the service is the class \<^verbatim>\<open>FileService\<close>, whose definition of
  \<^verbatim>\<open>_removeScheduler\<close> is commented out.
\<close>

definition handle_members :: "string list" where
  "handle_members = [''size'', ''stop'', ''add'', ''run'']"

definition service_members :: "string list" where
  "service_members =
     [''_eventEmitter'', ''_name'', ''_watcherConfig'', ''_profiles'',
      ''_pendingTransferTasks'', ''_transferSchedulers'', ''_config'', ''_configValidator'',
      ''_watcherService'', ''id'', ''baseDir'', ''workspace'', ''name'',
      ''setConfigValidator'', ''setWatcherService'', ''getAvailableProfiles'',
      ''getPendingTransferTasks'', ''isTransferring'', ''cancelTransferTasks'',
      ''beforeTransfer'', ''afterTransfer'', ''createTransferScheduler'',
      ''getLocalFileSystem'', ''getRemoteFileSystem'', ''getConfig'', ''getAllConfig'',
      ''dispose'', ''_resolveServiceConfig'', ''_storeScheduler'', ''_createIgnoreFn'',
      ''_createWatcher'', ''_disposeWatcher'', ''_disposeFileSystem'']"

fun members :: "receiver \<Rightarrow> string list" where
  "members (ThisHandle h) = handle_members"
| "members ThisService = service_members"

definition storeScheduler :: "world \<Rightarrow> nat \<Rightarrow> world" where
  "storeScheduler w h =
     w\<lparr>w_service := (w_service w)\<lparr>svc_transferSchedulers :=
          svc_transferSchedulers (w_service w) @ [h]\<rparr>\<rparr>"

text \<open>
  The call \<^verbatim>\<open>this._removeScheduler(transferScheduler)\<close>. When \<^verbatim>\<open>this\<close> has no such member the
  call raises \<^verbatim>\<open>TypeError\<close>; the other branch is the body that the source keeps in a comment
  (\<^verbatim>\<open>indexOf\<close> and \<^verbatim>\<open>splice\<close>).
\<close>

definition call_removeScheduler :: "receiver \<Rightarrow> world \<Rightarrow> nat \<Rightarrow> error + world" where
  "call_removeScheduler this w h =
     (if ''_removeScheduler'' \<in> set (members this) then
        Inr (w\<lparr>w_service := (w_service w)\<lparr>svc_transferSchedulers :=
               remove1 h (svc_transferSchedulers (w_service w))\<rparr>\<rparr>)
      else Inl (TypeError ''this._removeScheduler is not a function''))"

definition empty_scheduler :: "nat \<Rightarrow> scheduler" where
  "empty_scheduler concurrency =
     \<lparr>sch_concurrency = concurrency, sch_queue = [], sch_running = [],
      sch_started = False, sch_idle = []\<rparr>"

definition createTransferScheduler :: "world \<Rightarrow> nat \<Rightarrow> nat \<times> world" where
  "createTransferScheduler w concurrency =
     (let h = w_next_handle w;
          w1 = w\<lparr>w_schedulers := (w_schedulers w)(h := empty_scheduler concurrency),
                 w_next_handle := Suc h\<rparr>
      in (h, storeScheduler w1 h))"

definition handle_stop :: "world \<Rightarrow> nat \<Rightarrow> world" where
  "handle_stop w h = scheduler_empty w h"

definition handle_add :: "world \<Rightarrow> nat \<Rightarrow> nat \<Rightarrow> world" where
  "handle_add w h task = scheduler_add w h task"

text \<open>
  \<^verbatim>\<open>run()\<close>, with its \<^verbatim>\<open>this\<close> as a parameter. It returns the promise, or the error it
  throws; a promise that has resolved is listed in \<open>w_resolved\<close>.
\<close>

definition handle_run :: "receiver \<Rightarrow> world \<Rightarrow> nat \<Rightarrow> (error + nat) \<times> world" where
  "handle_run this w h =
     (if scheduler_size w h \<le> 0 then
        (case call_removeScheduler this w h of
           Inl err \<Rightarrow> (Inl err, w)
         | Inr w1 \<Rightarrow>
             (Inr (w_next_promise w1),
              w1\<lparr>w_next_promise := Suc (w_next_promise w1),
                 w_resolved := w_resolved w1 @ [w_next_promise w1]\<rparr>))
      else
        (let p = w_next_promise w;
             w1 = w\<lparr>w_next_promise := Suc p\<rparr>;
             w2 = scheduler_onIdle w1 h (RunIdle this h p)
         in (Inr p, scheduler_start w2 h)))"

text \<open>
  The idle callback of \<^verbatim>\<open>run()\<close>: remove the scheduler, then resolve. An exception of the
  first call leaves the callback before \<^verbatim>\<open>resolve()\<close>.
\<close>

fun fire_idle :: "world \<Rightarrow> idle_callback \<Rightarrow> world" where
  "fire_idle w (RunIdle this h p) =
     (case call_removeScheduler this w h of
        Inl err \<Rightarrow> w\<lparr>w_emitted := w_emitted w @ [Uncaught err]\<rparr>
      | Inr w1 \<Rightarrow> w1\<lparr>w_resolved := w_resolved w1 @ [p]\<rparr>)"

text \<open>
  Modelled from the spec: the completion of a task in the missing \<^verbatim>\<open>Scheduler\<close>. A running
  task of scheduler \<open>h\<close> completes, with an error or without: the listener of
  \<^verbatim>\<open>onTaskDone\<close> runs, the next queued task is dispatched, and when nothing is queued or
  running any more the idle callbacks fire, once.
\<close>

definition task_done :: "world \<Rightarrow> nat \<Rightarrow> nat \<Rightarrow> string option \<Rightarrow> world" where
  "task_done w h task err =
     (if task \<in> set (sch_running (w_schedulers w h)) then
        (let w1 = update_scheduler w h (\<lambda>s. s\<lparr>sch_running := removeAll task (sch_running s)\<rparr>);
             w2 = dispatch (onTaskDone w1 err task) h;
             s2 = w_schedulers w2 h
         in if sch_queue s2 = [] \<and> sch_running s2 = [] then
              foldl fire_idle (update_scheduler w2 h (\<lambda>s. s\<lparr>sch_idle := []\<rparr>)) (sch_idle s2)
            else w2)
      else w)"

text \<open>
  Modelled from the spec: \<^verbatim>\<open>TransferTask.cancel()\<close> (\<^verbatim>\<open>./transferTask\<close>) is missing from the
  source files. Cancellation is cooperative: the call signals the task and returns; the
  invocation is recorded.
\<close>

definition task_cancel :: "world \<Rightarrow> nat \<Rightarrow> world" where
  "task_cancel w task = w\<lparr>w_cancel_calls := w_cancel_calls w @ [task]\<rparr>"

definition cancelTransferTasks :: "world \<Rightarrow> world" where
  "cancelTransferTasks w =
     (let w1 = foldl handle_stop w (svc_transferSchedulers (w_service w));
          w2 = w1\<lparr>w_service := (w_service w1)\<lparr>svc_transferSchedulers := []\<rparr>\<rparr>;
          w3 = foldl task_cancel w2 (svc_pendingTransferTasks (w_service w2))
      in w3\<lparr>w_service := (w_service w3)\<lparr>svc_pendingTransferTasks := []\<rparr>\<rparr>)"

section \<open>The spec's reading of the remote merge\<close>

text \<open>
  What \<^verbatim>\<open>setConfigValue\<close> stores for a key: \<^verbatim>\<open>port\<close> goes through \<^verbatim>\<open>parseInt\<close>.
\<close>

definition storedValue :: "env \<Rightarrow> string \<Rightarrow> jsval \<Rightarrow> jsval" where
  "storedValue e key v = (if key = ''port'' then parseInt10 e v else v)"

text \<open>
  The spec's words for the remote merge, as a function of the remote definition's
  entries: the field that the remote definition offers for a key of the configuration
  is the value of its first entry, other than \<^verbatim>\<open>rootPath\<close>, whose name (with \<^verbatim>\<open>scheme\<close>
  read as \<^verbatim>\<open>protocol\<close>) is that key; \<^verbatim>\<open>undefined\<close> when it offers none.
\<close>

fun spec_remoteField :: "env \<Rightarrow> (string \<times> jsval) list \<Rightarrow> string \<Rightarrow> jsval" where
  "spec_remoteField e [] key = JUndefined"
| "spec_remoteField e (entry # entries) key =
     (if fst entry \<noteq> ''rootPath'' \<and> remoteTargetKey (fst entry) = key
         \<and> storedValue e key (snd entry) \<noteq> JUndefined
      then storedValue e key (snd entry)
      else spec_remoteField e entries key)"

section \<open>Example inputs\<close>

text \<open>
  An environment for the examples below: one remote definition named \<^verbatim>\<open>staging\<close>, no
  environment variables and no files; paths are POSIX paths below their roots, a
  pattern matches the relative path equal to it, \<^verbatim>\<open>parseInt\<close> reads a number or a
  string of decimal digits, strings are ASCII, and the prototypes offer the members of
  \<^verbatim>\<open>Object.prototype\<close>.
\<close>

definition example_relative :: "string \<Rightarrow> string \<Rightarrow> string" where
  "example_relative base p =
     (if p = base then []
      else if startsWith p (base @ ''/'') then drop (length base + 1) p
      else p)"

definition is_digit :: "char \<Rightarrow> bool" where
  "is_digit c = (48 \<le> (of_char c :: nat) \<and> (of_char c :: nat) \<le> 57)"

definition example_parseInt :: "jsval \<Rightarrow> jsval" where
  "example_parseInt v =
     (case v of
        JNum n \<Rightarrow> JNum n
      | JStr s \<Rightarrow>
          (if s \<noteq> [] \<and> filter is_digit s = s
           then JNum (foldl (\<lambda>acc c. 10 * acc + (int (of_char c) - 48)) 0 s)
           else JNaN)
      | _ \<Rightarrow> JNaN)"

definition example_remote :: obj where
  "example_remote =
     [(''scheme'', JStr ''ftp''),
      (''host'', JStr ''staging.example.com''),
      (''port'', JStr ''2121''),
      (''rootPath'', JStr ''/srv''),
      (''username'', JStr ''deploy'')]"

definition example_env :: env where
  "example_env =
     \<lparr>userRemotes = (\<lambda>name. if name = JStr ''staging'' then Some example_remote else None),
      processEnv = (\<lambda>name. None),
      fsRead = (\<lambda>p. NoFile),
      replaceHomePath = (\<lambda>p. p),
      resolvePath = (\<lambda>w p. w @ ''/'' @ p),
      upath_normalize = (\<lambda>p. if take 2 p = ''./'' then drop 2 p else p),
      upath_relative = (\<lambda>base p. case base of JStr b \<Rightarrow> example_relative b p | _ \<Rightarrow> p),
      path_normalize = (\<lambda>p. p),
      path_relative = example_relative,
      sshConfigFind = (\<lambda>content host. None),
      parseInt10 = example_parseInt,
      ignores = (\<lambda>patterns rel. JStr rel \<in> set patterns),
      stringUnits = (\<lambda>s. map (\<lambda>c. [c]) s),
      protoMember = (\<lambda>v key. key \<in> set object_prototype_names)\<rparr>"

text \<open>A configuration for FTP with eight parallel transfers and no port.\<close>

definition example_ftp_config :: obj where
  "example_ftp_config =
     [(''host'', JStr ''dev.example.com''),
      (''protocol'', JStr ''ftp''),
      (''username'', JStr ''u''),
      (''remotePath'', JStr ''/var/www''),
      (''concurrency'', JNum 8),
      (''ignore'', JArr [JStr ''node_modules''])]"

text \<open>A configuration with one profile, which changes the host.\<close>

definition example_profile_config :: obj where
  "example_profile_config =
     [(''profiles'', JObj [(''prod'', JObj [(''host'', JStr ''p.example.com'')])]),
      (''host'', JStr ''dev.example.com''),
      (''protocol'', JStr ''ftp''),
      (''username'', JStr ''u''),
      (''remotePath'', JStr ''/r'')]"

text \<open>A configuration that refers to the remote definition \<^verbatim>\<open>staging\<close> and sets its own host.\<close>

definition example_remote_config :: obj where
  "example_remote_config =
     [(''remote'', JStr ''staging''),
      (''host'', JStr ''dev.example.com''),
      (''remotePath'', JStr ''/r'')]"

text \<open>A configuration without \<^verbatim>\<open>host\<close>, which the schema requires.\<close>

definition example_invalid_config :: obj where
  "example_invalid_config =
     [(''protocol'', JStr ''ftp''),
      (''username'', JStr ''u''),
      (''remotePath'', JStr ''/var/www'')]"

text \<open>The rule \<^verbatim>\<open>host: Joi.string().required()\<close> of \<^verbatim>\<open>configScheme\<close>, as a schema validator.\<close>

definition example_schema :: schema_validate where
  "example_schema cfg =
     (case get_prop cfg ''host'' of
        JStr s \<Rightarrow> None
      | JUndefined \<Rightarrow> Some ''host is required''
      | _ \<Rightarrow> Some ''host must be a string'')"

definition example_service :: "obj \<Rightarrow> (obj \<Rightarrow> jsval) option \<Rightarrow> file_service" where
  "example_service cfg validator =
     \<lparr>svc_baseDir = ''/w'', svc_workspace = ''/w'', svc_config = cfg,
      svc_configValidator = validator,
      svc_pendingTransferTasks = [], svc_transferSchedulers = []\<rparr>"

text \<open>A fresh service with nothing scheduled.\<close>

definition example_world :: world where
  "example_world =
     \<lparr>w_service = example_service example_ftp_config None,
      w_schedulers = (\<lambda>h. empty_scheduler 0),
      w_next_handle = 0,
      w_next_promise = 0,
      w_resolved = [],
      w_emitted = [],
      w_cancel_calls = []\<rparr>"

text \<open>
  A busy service: a scheduler of concurrency 1 with tasks 7 and 8, started by \<^verbatim>\<open>run()\<close>,
  and a second scheduler with task 9, not started.
\<close>

definition example_busy_world :: world where
  "example_busy_world =
     (let w1 = snd (createTransferScheduler example_world 1);
          w2 = handle_add (handle_add w1 0 7) 0 8;
          w3 = snd (handle_run (ThisHandle 0) w2 0);
          w4 = snd (createTransferScheduler w3 2)
      in handle_add w4 1 9)"

section \<open>Notions for the proofs about mergeProfile\<close>

text \<open>What the branch for the key \<^verbatim>\<open>ignore\<close> stores, from the two values it reads.\<close>

definition ignore_merged :: "jsval \<Rightarrow> jsval \<Rightarrow> jsval" where
  "ignore_merged t s =
     (if isArray t \<and> isArray s then JArr (elements t @ elements s)
      else if isArray s then s
      else JArr [])"

text \<open>
  The read of \<^verbatim>\<open>ignore\<close> is stable under the other keys as long as the object has an
  \<^verbatim>\<open>ignore\<close> of its own, or keeps the prototype it started with.
\<close>

definition ignore_stable :: "jsobject \<Rightarrow> string list \<Rightarrow> bool" where
  "ignore_stable ob ks =
     (map_of (own_props ob) ''ignore'' \<noteq> None
      \<or> (''__proto__'' \<notin> set ks \<and> prototype ob = ObjectPrototype))"

section \<open>Properties of objects\<close>

lemma get_set_prop: "get_prop (set_prop ob k v) k' = (if k' = k then v else get_prop ob k')"
  by (simp add: get_prop_def set_prop_def update_conv')

lemma get_delete_prop:
  "get_prop (delete_prop ob k) k' = (if k' = k then inherited_object k else get_prop ob k')"
  by (simp add: get_prop_def delete_prop_def delete_conv')

lemma inherited_object_data_key [simp]:
  "inherited_object ''ignore'' = JUndefined"
  "inherited_object ''port'' = JUndefined"
  "inherited_object ''protocol'' = JUndefined"
  "inherited_object ''concurrency'' = JUndefined"
  "inherited_object ''profiles'' = JUndefined"
  "inherited_object ''remote'' = JUndefined"
  "inherited_object ''rootPath'' = JUndefined"
  "inherited_object ''scheme'' = JUndefined"
  "inherited_object ''host'' = JUndefined"
  by (simp_all add: inherited_object_def object_prototype_names_def)

lemma read_plain: "read e (plain ob) k = get_prop ob k"
  by (simp add: read_def plain_def get_prop_def split: option.splits)

lemma read_default_prototype:
  "prototype ob = ObjectPrototype \<Longrightarrow> read e ob k = get_prop (own_props ob) k"
  by (simp add: read_def get_prop_def split: option.splits)

lemma read_own: "map_of (own_props ob) k = Some v \<Longrightarrow> read e ob k = v"
  by (simp add: read_def)

section \<open>validateConfig always returns an object with a message\<close>

text \<open>
  Claim C10. For every input, \<^verbatim>\<open>validateConfig\<close> returns a non-null object with a string
  \<^verbatim>\<open>message\<close> field: the error's message when schema validation produces an error, and
  the text "Validation passed." when it succeeds. The returned value is never
  \<^verbatim>\<open>undefined\<close>, \<^verbatim>\<open>null\<close> or any other falsy value.
\<close>

theorem validateConfig_returns_message_object:
  "validateConfig validate config =
     JObj [(''message'',
            JStr (case validate config of
                    Some error_message \<Rightarrow> error_message
                  | None \<Rightarrow> ''Validation passed.''))]
   \<and> truthy (validateConfig validate config)
   \<and> validateConfig validate config \<noteq> JUndefined
   \<and> validateConfig validate config \<noteq> JNull"
  by (simp add: validateConfig_def split: option.split)

section \<open>Unfolding the definitions on concrete inputs\<close>

lemmas merge_eval_defs =
  mergeProfile_def mergeProfile_step_def keys_of_def get_prop_def delete_prop_def member_def
  read_def assign_def plain_def inherited_object_def object_prototype_names_def
  reaches_proto_setter_def Let_def

lemmas eval_defs =
  getConfig_def selectProfile_def hasProfiles_def getCompleteConfig_def
  mergeConfigWithExternalRefer_def mergeRemote_def completeMerged_def normalizeRemotePath_def
  resolveConfigPath_def resolveAgent_def checkValidator_def resolveServiceConfig_def
  createIgnoreFn_def filesIgnoredFromConfig_def chooseDefaultPort_def
  get_prop_def set_prop_def delete_prop_def keys_of_def member_def
  read_def plain_def inherited_object_def object_prototype_names_def
  example_env_def example_service_def Let_def

lemmas world_defs =
  example_busy_world_def example_world_def example_service_def createTransferScheduler_def
  storeScheduler_def empty_scheduler_def handle_add_def scheduler_add_def dispatch_def
  update_scheduler_def handle_run_def scheduler_size_def scheduler_onIdle_def
  scheduler_start_def onTaskStart_def pending_add_def Let_def

section \<open>mergeProfile and the ignore lists\<close>

lemma own_assign_other:
  "k' \<noteq> k \<Longrightarrow> map_of (own_props (assign e ob k v)) k' = map_of (own_props ob) k'"
  by (auto simp: assign_def update_conv' map_add_def split: jsval.splits option.splits)

lemma own_assign_self:
  "k \<noteq> ''__proto__'' \<Longrightarrow> map_of (own_props (assign e ob k v)) k = Some v"
  by (auto simp: assign_def update_conv' map_add_def split: jsval.splits option.splits)

lemma prototype_assign_other:
  "k \<noteq> ''__proto__'' \<Longrightarrow> prototype (assign e ob k v) = prototype ob"
  by (auto simp: assign_def)

lemma mergeProfile_step_ignore:
  "mergeProfile_step e source (res, logged) ''ignore'' =
     (assign e res ''ignore'' (ignore_merged (read e res ''ignore'') (member e source ''ignore'')),
      logged @ [if isArray (read e res ''ignore'') \<and> isArray (member e source ''ignore'')
                then DebugMergingIgnoreArrays else WarnInvalidIgnoreFormat])"
  by (auto simp: mergeProfile_step_def ignore_merged_def split: jsval.splits)

lemma mergeProfile_step_other:
  "k \<noteq> ''ignore'' \<Longrightarrow>
   mergeProfile_step e source (res, logged) k =
     (assign e res k (member e source k), logged @ [DebugMergingProperty k])"
  by (simp add: mergeProfile_step_def)

lemma assign_keeps_ignore:
  assumes "k \<noteq> ''ignore''" and "ignore_stable ob (k # ks)"
  shows "ignore_stable (assign e ob k v) ks"
    and "read e (assign e ob k v) ''ignore'' = read e ob ''ignore''"
proof -
  have own: "map_of (own_props (assign e ob k v)) ''ignore'' = map_of (own_props ob) ''ignore''"
    using assms(1) by (simp add: own_assign_other)
  show "ignore_stable (assign e ob k v) ks"
    using assms(2) own by (auto simp: ignore_stable_def prototype_assign_other)
  show "read e (assign e ob k v) ''ignore'' = read e ob ''ignore''"
  proof (cases "map_of (own_props ob) ''ignore''")
    case (Some x)
    then show ?thesis using own by (simp add: read_def)
  next
    case None
    with assms(2) have "k \<noteq> ''__proto__''" "prototype ob = ObjectPrototype"
      by (auto simp: ignore_stable_def)
    then show ?thesis using own None
      by (simp add: read_def prototype_assign_other)
  qed
qed

lemma foldl_mergeProfile_step_keeps_ignore:
  "''ignore'' \<notin> set ks \<Longrightarrow> ignore_stable res ks \<Longrightarrow>
   read e (fst (foldl (mergeProfile_step e source) (res, logged) ks)) ''ignore''
     = read e res ''ignore''
   \<and> (WarnInvalidIgnoreFormat \<in> set (snd (foldl (mergeProfile_step e source) (res, logged) ks))
        \<longleftrightarrow> WarnInvalidIgnoreFormat \<in> set logged)"
proof (induction ks arbitrary: res logged)
  case Nil
  then show ?case by simp
next
  case (Cons k ks)
  then have k: "k \<noteq> ''ignore''" and ks: "''ignore'' \<notin> set ks" by auto
  note a = assign_keeps_ignore[OF k Cons.prems(2), of e "member e source k"]
  show ?case
    using Cons.IH[OF ks a(1), of "logged @ [DebugMergingProperty k]"] a(2)
    by (simp add: mergeProfile_step_other[OF k])
qed

lemma foldl_mergeProfile_step_ignore:
  assumes "distinct ks" and "''ignore'' \<in> set ks" and "ignore_stable res ks"
    and "WarnInvalidIgnoreFormat \<notin> set logged"
  shows "read e (fst (foldl (mergeProfile_step e source) (res, logged) ks)) ''ignore''
           = ignore_merged (read e res ''ignore'') (member e source ''ignore'')"
    and "WarnInvalidIgnoreFormat \<in> set (snd (foldl (mergeProfile_step e source) (res, logged) ks))
           \<longleftrightarrow> \<not> (isArray (read e res ''ignore'') \<and> isArray (member e source ''ignore''))"
proof -
  from assms(2) obtain pre post where ks: "ks = pre @ ''ignore'' # post"
    by (auto simp: in_set_conv_decomp)
  with assms(1) have pre: "''ignore'' \<notin> set pre" and post: "''ignore'' \<notin> set post" by auto
  have stable_pre: "ignore_stable res pre"
    using assms(3) ks by (auto simp: ignore_stable_def)
  obtain res1 log1 where st1: "foldl (mergeProfile_step e source) (res, logged) pre = (res1, log1)"
    by (cases "foldl (mergeProfile_step e source) (res, logged) pre")
  have r1: "read e res1 ''ignore'' = read e res ''ignore''"
    and w1: "WarnInvalidIgnoreFormat \<notin> set log1"
    using foldl_mergeProfile_step_keeps_ignore[OF pre stable_pre, of e source logged] st1 assms(4)
    by simp_all
  let ?v = "ignore_merged (read e res ''ignore'') (member e source ''ignore'')"
  let ?res2 = "assign e res1 ''ignore'' ?v"
  let ?log2 = "log1 @ [if isArray (read e res ''ignore'') \<and> isArray (member e source ''ignore'')
                then DebugMergingIgnoreArrays else WarnInvalidIgnoreFormat]"
  have st2: "mergeProfile_step e source (res1, log1) ''ignore'' = (?res2, ?log2)"
    by (simp add: mergeProfile_step_ignore r1)
  have own2: "map_of (own_props ?res2) ''ignore'' = Some ?v"
    by (simp add: own_assign_self)
  then have stable2: "ignore_stable ?res2 post"
    by (simp add: ignore_stable_def)
  have fin: "foldl (mergeProfile_step e source) (res, logged) ks
               = foldl (mergeProfile_step e source) (?res2, ?log2) post"
    by (simp add: ks st1 st2)
  note k = foldl_mergeProfile_step_keeps_ignore[OF post stable2, of e source ?log2]
  show "read e (fst (foldl (mergeProfile_step e source) (res, logged) ks)) ''ignore'' = ?v"
    using k own2 by (simp add: fin read_own)
  show "WarnInvalidIgnoreFormat \<in> set (snd (foldl (mergeProfile_step e source) (res, logged) ks))
           \<longleftrightarrow> \<not> (isArray (read e res ''ignore'') \<and> isArray (member e source ''ignore''))"
    using k w1 by (simp add: fin)
qed

text \<open>
  Claim C5, as the code has it. The base's value is the base's own \<^verbatim>\<open>ignore\<close> entry, and
  the statement is for a base that has one or a profile that has no key \<^verbatim>\<open>__proto__\<close>
  (with that key a base without \<^verbatim>\<open>ignore\<close> can inherit one from the profile). When the
  profile declares \<^verbatim>\<open>ignore\<close> and both values are arrays, the merged \<^verbatim>\<open>ignore\<close> is the
  base's entries followed by the profile's, order and duplicates kept. When the profile
  declares \<^verbatim>\<open>ignore\<close> and one of the two values is not an array, the merged \<^verbatim>\<open>ignore\<close> is
  the profile's value if that value is an array and the empty array if it is not. A
  profile that does not declare \<^verbatim>\<open>ignore\<close> leaves the base's value in place. The warning
  about the format of \<^verbatim>\<open>ignore\<close> is logged exactly in the second case. The merge is not
  fatal: \<^verbatim>\<open>getConfig\<close>'s profile step returns the merged configuration.
\<close>

theorem mergeProfile_ignore:
  assumes "map_of target ''ignore'' \<noteq> None \<or> ''__proto__'' \<notin> set (keys_of e source)"
  shows "read e (fst (mergeProfile e target source)) ''ignore'' =
           (if ''ignore'' \<in> set (keys_of e source) then
              (if isArray (get_prop target ''ignore'') \<and> isArray (member e source ''ignore'')
               then JArr (elements (get_prop target ''ignore'') @ elements (member e source ''ignore''))
               else if isArray (member e source ''ignore'') then member e source ''ignore''
               else JArr [])
            else get_prop target ''ignore'')
         \<and> (WarnInvalidIgnoreFormat \<in> set (snd (mergeProfile e target source))
              \<longleftrightarrow> ''ignore'' \<in> set (keys_of e source)
                  \<and> \<not> (isArray (get_prop target ''ignore'') \<and> isArray (member e source ''ignore'')))
         \<and> (hasProfiles e target \<and> useProfile \<noteq> []
              \<and> member e (get_prop target ''profiles'') useProfile = source \<and> truthy source
            \<longrightarrow> selectProfile e target useProfile = Inr (fst (mergeProfile e target source)))"
proof -
  let ?res0 = "plain (delete_prop target ''profiles'')"
  let ?log0 = "[InfoStartingProfileMerge]"
  have stable: "ignore_stable ?res0 (keys_of e source)"
    using assms by (auto simp: ignore_stable_def plain_def delete_prop_def delete_conv')
  have r0: "read e ?res0 ''ignore'' = get_prop target ''ignore''"
    by (simp add: read_plain get_delete_prop)
  have d: "distinct (keys_of e source)" by (simp add: keys_of_def)
  have w0: "WarnInvalidIgnoreFormat \<notin> set ?log0" by simp
  have sel: "hasProfiles e target \<and> useProfile \<noteq> []
              \<and> member e (get_prop target ''profiles'') useProfile = source \<and> truthy source
            \<longrightarrow> selectProfile e target useProfile = Inr (fst (mergeProfile e target source))"
    by (auto simp: selectProfile_def Let_def)
  show ?thesis
  proof (cases "''ignore'' \<in> set (keys_of e source)")
    case True
    note f = foldl_mergeProfile_step_ignore[OF d True stable w0, of e source]
    show ?thesis
      using f True sel by (simp add: mergeProfile_def Let_def r0 ignore_merged_def)
  next
    case False
    note f = foldl_mergeProfile_step_keeps_ignore[OF False stable, of e source ?log0]
    show ?thesis
      using f False sel by (simp add: mergeProfile_def Let_def r0)
  qed
qed


text \<open>
  The claim as stated says that the profile's value replaces the base's whenever one of
  the two is not an array. A profile whose \<^verbatim>\<open>ignore\<close> is the string \<^verbatim>\<open>*.log\<close>, over a base whose
  \<^verbatim>\<open>ignore\<close> is an array, gives the empty array, not the profile's value.
\<close>

theorem mergeProfile_ignore_counterexample:
  "\<not> (read example_env
         (fst (mergeProfile example_env
                 [(''host'', JStr ''dev.example.com''), (''ignore'', JArr [JStr ''.git''])]
                 (JObj [(''ignore'', JStr ''*.log'')]))) ''ignore''
       = member example_env (JObj [(''ignore'', JStr ''*.log'')]) ''ignore'')"
  by (simp add: merge_eval_defs)

text \<open>
  The theorem at work: two arrays are concatenated without a warning; a string in the
  profile gives the empty array and a warning; and the profile step of \<^verbatim>\<open>getConfig\<close>
  returns the merge with the profile \<^verbatim>\<open>prod\<close>.
\<close>

theorem mergeProfile_ignore_witness:
  "read example_env
     (fst (mergeProfile example_env
             [(''host'', JStr ''dev.example.com''), (''ignore'', JArr [JStr ''.git''])]
             (JObj [(''ignore'', JArr [JStr ''*.log'', JStr ''.git''])]))) ''ignore''
     = JArr [JStr ''.git'', JStr ''*.log'', JStr ''.git'']
   \<and> WarnInvalidIgnoreFormat \<notin> set (snd (mergeProfile example_env
             [(''host'', JStr ''dev.example.com''), (''ignore'', JArr [JStr ''.git''])]
             (JObj [(''ignore'', JArr [JStr ''*.log'', JStr ''.git''])])))
   \<and> read example_env
     (fst (mergeProfile example_env
             [(''host'', JStr ''dev.example.com''), (''ignore'', JArr [JStr ''.git''])]
             (JObj [(''ignore'', JStr ''*.log'')]))) ''ignore''
     = JArr []
   \<and> WarnInvalidIgnoreFormat \<in> set (snd (mergeProfile example_env
             [(''host'', JStr ''dev.example.com''), (''ignore'', JArr [JStr ''.git''])]
             (JObj [(''ignore'', JStr ''*.log'')])))
   \<and> selectProfile example_env example_profile_config ''prod''
     = Inr (fst (mergeProfile example_env example_profile_config
                   (JObj [(''host'', JStr ''p.example.com'')])))"
proof -
  let ?t = "[(''host'', JStr ''dev.example.com''), (''ignore'', JArr [JStr ''.git''])]"
  let ?s1 = "JObj [(''ignore'', JArr [JStr ''*.log'', JStr ''.git''])]"
  let ?s2 = "JObj [(''ignore'', JStr ''*.log'')]"
  let ?p = "JObj [(''host'', JStr ''p.example.com'')]"
  have h: "map_of ?t ''ignore'' \<noteq> None \<or> ''__proto__'' \<notin> set (keys_of example_env ?s1)"
      "map_of ?t ''ignore'' \<noteq> None \<or> ''__proto__'' \<notin> set (keys_of example_env ?s2)"
      "map_of example_profile_config ''ignore'' \<noteq> None \<or> ''__proto__'' \<notin> set (keys_of example_env ?p)"
    by (simp_all add: keys_of_def)
  have p: "hasProfiles example_env example_profile_config"
      "member example_env (get_prop example_profile_config ''profiles'') ''prod'' = ?p"
    by (simp_all add: hasProfiles_def example_profile_config_def get_prop_def keys_of_def member_def)
  show ?thesis
    using mergeProfile_ignore[OF h(1)] mergeProfile_ignore[OF h(2)]
      mergeProfile_ignore[OF h(3), of "''prod''"] p
    by (simp add: get_prop_def member_def keys_of_def)
qed


section \<open>What the merges and the resolution steps leave alone\<close>

lemma get_setConfigValue:
  "get_prop (setConfigValue e cfg k' v) k =
     (if k = k' \<and> get_prop cfg k = JUndefined then storedValue e k v else get_prop cfg k)"
  by (auto simp: setConfigValue_def storedValue_def get_set_prop)

lemma get_mergeRemoteEntry:
  "get_prop (mergeRemoteEntry e m entry) k =
     (if fst entry \<noteq> ''rootPath'' \<and> remoteTargetKey (fst entry) = k \<and> get_prop m k = JUndefined
      then storedValue e k (snd entry) else get_prop m k)"
  by (auto simp: mergeRemoteEntry_def get_setConfigValue)

lemma get_foldl_mergeRemoteEntry:
  "get_prop (foldl (mergeRemoteEntry e) m entries) k =
     (if get_prop m k \<noteq> JUndefined then get_prop m k else spec_remoteField e entries k)"
proof (induction entries arbitrary: m)
  case Nil
  then show ?case by simp
next
  case (Cons entry entries)
  show ?case
    by (simp add: Cons.IH get_mergeRemoteEntry)
qed

lemma get_mergeSshLine_other:
  "get_prop m k \<noteq> JUndefined \<Longrightarrow> k \<noteq> ''host'' \<Longrightarrow> get_prop (mergeSshLine e m line) k = get_prop m k"
  by (auto simp: mergeSshLine_def get_setConfigValue get_set_prop split: option.splits)

lemma get_foldl_mergeSshLine_other:
  "get_prop m k \<noteq> JUndefined \<Longrightarrow> k \<noteq> ''host'' \<Longrightarrow>
   get_prop (foldl (mergeSshLine e) m lines) k = get_prop m k"
  by (induction lines arbitrary: m) (simp_all add: get_mergeSshLine_other)

lemma mergeRemote_defined:
  "mergeRemote e cfg = Inr m \<Longrightarrow> get_prop (own_props cfg) k \<noteq> JUndefined \<Longrightarrow>
   get_prop m k = get_prop (own_props cfg) k"
  by (auto simp: mergeRemote_def Let_def get_foldl_mergeRemoteEntry split: if_splits option.splits)

lemma mergeSshConfig_defined:
  "mergeSshConfig e c cfg m = (Inr m', c') \<Longrightarrow> get_prop m k \<noteq> JUndefined \<Longrightarrow> k \<noteq> ''host'' \<Longrightarrow>
   get_prop m' k = get_prop m k"
  by (auto simp: mergeSshConfig_def Let_def get_foldl_mergeSshLine_other
      split: sum.splits option.splits prod.splits if_splits fs_entry.splits)

lemma mergeConfigWithExternalRefer_after_remote:
  assumes "mergeConfigWithExternalRefer e c cfg = (Inr m, c')"
    and "mergeRemote e cfg = Inr m0"
    and "get_prop m0 k \<noteq> JUndefined" and "k \<noteq> ''host''"
  shows "get_prop m k = get_prop m0 k"
proof (cases "read e cfg ''protocol'' = JStr ''sftp''")
  case True
  with assms(1,2) have "mergeSshConfig e c cfg m0 = (Inr m, c')"
    by (simp add: mergeConfigWithExternalRefer_def)
  then show ?thesis
    using assms(3,4) by (rule mergeSshConfig_defined)
next
  case False
  with assms(1,2) have "m = m0" by (simp add: mergeConfigWithExternalRefer_def)
  then show ?thesis by simp
qed

lemma mergeConfigWithExternalRefer_defined:
  assumes "mergeConfigWithExternalRefer e c cfg = (Inr m, c')"
    and "get_prop (own_props cfg) k \<noteq> JUndefined" and "k \<noteq> ''host''"
  shows "get_prop m k = get_prop (own_props cfg) k"
proof -
  from assms(1) obtain m0 where m0: "mergeRemote e cfg = Inr m0"
    by (auto simp: mergeConfigWithExternalRefer_def split: sum.splits)
  have eq0: "get_prop m0 k = get_prop (own_props cfg) k"
    using m0 assms(2) by (rule mergeRemote_defined)
  then show ?thesis
    using mergeConfigWithExternalRefer_after_remote[OF assms(1) m0, of k] assms(2,3) by simp
qed

lemma normalizeRemotePath_other:
  "normalizeRemotePath e m = Inr m' \<Longrightarrow> k \<noteq> ''remotePath'' \<Longrightarrow> get_prop m' k = get_prop m k"
  by (auto simp: normalizeRemotePath_def get_set_prop split: sum.splits)

lemma resolveConfigPath_other:
  "resolveConfigPath e ws key m = Inr m' \<Longrightarrow> k \<noteq> key \<Longrightarrow> get_prop m' k = get_prop m k"
  by (auto simp: resolveConfigPath_def get_set_prop split: sum.splits if_splits)

lemma resolveAgent_other:
  "resolveAgent e m = Inr m' \<Longrightarrow> k \<noteq> ''agent'' \<Longrightarrow> get_prop m' k = get_prop m k"
  by (auto simp: resolveAgent_def get_set_prop Let_def split: sum.splits if_splits option.splits)

lemma completeMerged_other:
  assumes "completeMerged e ws m = Inr m'"
    and "k \<noteq> ''remotePath''" "k \<noteq> ''privateKeyPath''" "k \<noteq> ''ignoreFile''" "k \<noteq> ''agent''"
  shows "get_prop m' k = get_prop m k"
proof -
  from assms(1) obtain c1 c2 c3 where
    s1: "normalizeRemotePath e m = Inr c1" and
    s2: "resolveConfigPath e ws ''privateKeyPath'' c1 = Inr c2" and
    s3: "resolveConfigPath e ws ''ignoreFile'' c2 = Inr c3" and
    s4: "resolveAgent e c3 = Inr m'"
    by (auto simp: completeMerged_def split: sum.splits)
  show ?thesis
    using normalizeRemotePath_other[OF s1 assms(2)] resolveConfigPath_other[OF s2 assms(3)]
      resolveConfigPath_other[OF s3 assms(4)] resolveAgent_other[OF s4 assms(5)]
    by simp
qed

lemma getCompleteConfig_defined:
  assumes "getCompleteConfig e ws c cfg = (Inr cc, c')"
    and "get_prop (own_props cfg) k \<noteq> JUndefined"
    and "k \<noteq> ''host''" "k \<noteq> ''remotePath''" "k \<noteq> ''privateKeyPath''"
        "k \<noteq> ''ignoreFile''" "k \<noteq> ''agent''"
  shows "get_prop cc k = get_prop (own_props cfg) k"
proof -
  from assms(1) obtain m where
    m: "mergeConfigWithExternalRefer e c cfg = (Inr m, c')" and
    cm: "completeMerged e ws m = Inr cc"
    by (auto simp: getCompleteConfig_def split: prod.splits sum.splits)
  have "get_prop m k = get_prop (own_props cfg) k"
    using m assms(2,3) by (rule mergeConfigWithExternalRefer_defined)
  then show ?thesis
    using completeMerged_other[OF cm assms(4-7)] by simp
qed

lemma getCompleteConfig_protocol:
  assumes "getCompleteConfig e ws c cfg = (Inr cc, c')"
    and "get_prop (own_props cfg) ''protocol'' = JStr p"
  shows "get_prop cc ''protocol'' = JStr p"
  using getCompleteConfig_defined[OF assms(1), of "''protocol''"] assms(2) by simp

text \<open>Without a reference to a remote definition and without SSH, the merge is the copy.\<close>

lemma getCompleteConfig_no_merge:
  assumes "getCompleteConfig e ws c cfg = (Inr cc, c')"
    and "\<not> truthy (read e cfg ''remote'')" and "read e cfg ''protocol'' \<noteq> JStr ''sftp''"
    and "k \<noteq> ''remotePath''" "k \<noteq> ''privateKeyPath''" "k \<noteq> ''ignoreFile''" "k \<noteq> ''agent''"
  shows "get_prop cc k = get_prop (own_props cfg) k"
proof -
  from assms(1) obtain m where
    m: "mergeConfigWithExternalRefer e c cfg = (Inr m, c')" and
    cm: "completeMerged e ws m = Inr cc"
    by (auto simp: getCompleteConfig_def split: prod.splits sum.splits)
  have "m = own_props cfg"
    using m assms(2,3) by (simp add: mergeConfigWithExternalRefer_def mergeRemote_def Let_def)
  then show ?thesis
    using completeMerged_other[OF cm assms(4-7)] by simp
qed

lemma checkValidator_same: "checkValidator fs cc = Inr v \<Longrightarrow> v = cc"
  by (auto simp: checkValidator_def Let_def split: option.splits if_splits)

lemma resolveServiceConfig_fields:
  assumes "resolveServiceConfig e fs c cfg = (Inr sc, c')"
  shows "sc_fields sc =
           delete_prop
             (let withPort =
                    (if get_prop cfg ''port'' = JUndefined
                     then set_prop cfg ''port'' (JNum (chooseDefaultPort (get_prop cfg ''protocol'')))
                     else cfg)
              in if get_prop withPort ''protocol'' = JStr ''ftp''
                 then set_prop withPort ''concurrency'' (JNum 1) else withPort)
             ''ignore''"
  using assms
  by (auto simp: resolveServiceConfig_def Let_def split: prod.splits sum.splits)

lemma resolveServiceConfig_ftp:
  assumes "resolveServiceConfig e fs c cfg = (Inr sc, c')"
    and "get_prop cfg ''protocol'' = JStr ''ftp''"
  shows "get_prop (sc_fields sc) ''concurrency'' = JNum 1"
    and "get_prop (sc_fields sc) ''protocol'' = JStr ''ftp''"
  using assms(2)
  by (simp_all add: resolveServiceConfig_fields[OF assms(1)] Let_def get_delete_prop get_set_prop)

lemma resolveServiceConfig_port:
  assumes "resolveServiceConfig e fs c cfg = (Inr sc, c')"
  shows "get_prop (sc_fields sc) ''port'' =
           (if get_prop cfg ''port'' = JUndefined then
              (if get_prop cfg ''protocol'' = JStr ''ftp'' then JNum 21 else JNum 22)
            else get_prop cfg ''port'')"
  by (simp add: resolveServiceConfig_fields[OF assms] Let_def get_delete_prop get_set_prop
      chooseDefaultPort_def)

lemma getConfig_stages:
  assumes "getConfig e fs c useProfile = (Inr sc, c')"
    and "selectProfile e (svc_config fs) useProfile = Inr selected"
  obtains complete c1 where
    "getCompleteConfig e (svc_workspace fs) c selected = (Inr complete, c1)"
    "resolveServiceConfig e fs c1 complete = (Inr sc, c')"
proof -
  from assms obtain cc c1 v where
    cc: "getCompleteConfig e (svc_workspace fs) c selected = (Inr cc, c1)" and
    v: "checkValidator fs cc = Inr v" and
    r: "resolveServiceConfig e fs c1 v = (Inr sc, c')"
    by (auto simp: getConfig_def split: prod.splits sum.splits)
  have "v = cc" using v by (rule checkValidator_same)
  with cc r that show ?thesis by simp
qed

section \<open>FTP is resolved with one transfer at a time\<close>

text \<open>
  Claim C6. For every input configuration with protocol \<^verbatim>\<open>ftp\<close>, whatever concurrency it
  configures, the configuration resolved by \<^verbatim>\<open>getConfig\<close> has concurrency 1. The input
  configuration is the one that \<^verbatim>\<open>getConfig\<close> resolves: the stored configuration, overlaid
  with the requested profile when one applies (\<open>selected\<close>), with its own entries.
  Whenever \<^verbatim>\<open>getConfig\<close> returns a configuration for it, that configuration's
  \<^verbatim>\<open>concurrency\<close> is 1.
\<close>

theorem getConfig_ftp_concurrency:
  assumes "getConfig e fs c useProfile = (Inr sc, c')"
    and "selectProfile e (svc_config fs) useProfile = Inr selected"
    and "get_prop (own_props selected) ''protocol'' = JStr ''ftp''"
  shows "get_prop (sc_fields sc) ''concurrency'' = JNum 1"
proof -
  from assms(1,2) obtain complete c1 where
    cc: "getCompleteConfig e (svc_workspace fs) c selected = (Inr complete, c1)" and
    r: "resolveServiceConfig e fs c1 complete = (Inr sc, c')"
    by (rule getConfig_stages)
  have "get_prop complete ''protocol'' = JStr ''ftp''"
    using cc assms(3) by (rule getCompleteConfig_protocol)
  then show ?thesis
    using resolveServiceConfig_ftp(1)[OF r] by simp
qed

text \<open>The FTP example configures eight parallel transfers and is resolved with one.\<close>

theorem getConfig_ftp_concurrency_witness:
  "get_prop example_ftp_config ''concurrency'' = JNum 8
   \<and> (case fst (getConfig example_env (example_service example_ftp_config None) [] []) of
        Inl err \<Rightarrow> False
      | Inr sc \<Rightarrow> get_prop (sc_fields sc) ''concurrency'' = JNum 1)"
proof -
  obtain sc c' where r: "getConfig example_env (example_service example_ftp_config None) [] [] = (Inr sc, c')"
    by (simp add: eval_defs example_ftp_config_def)
  have s: "selectProfile example_env (svc_config (example_service example_ftp_config None)) []
             = Inr (plain example_ftp_config)"
    by (simp add: selectProfile_def example_service_def)
  have p: "get_prop (own_props (plain example_ftp_config)) ''protocol'' = JStr ''ftp''"
    by (simp add: example_ftp_config_def get_prop_def plain_def)
  have "get_prop (sc_fields sc) ''concurrency'' = JNum 1"
    using getConfig_ftp_concurrency[OF r s p] .
  then show ?thesis using r by (simp add: example_ftp_config_def get_prop_def)
qed

section \<open>The default port\<close>

text \<open>
  Claim C7, as the code has it. Whenever \<^verbatim>\<open>getConfig\<close> returns a configuration, its port
  is the port that the configuration has after the merges (of the referenced remote
  definition and of the SSH configuration), and where it has none after the merges, 21
  when its protocol is \<^verbatim>\<open>ftp\<close> and 22 for any other protocol. A port set in the input
  configuration (the stored one, overlaid with the requested profile when one applies)
  is the port of the result. An input configuration with no port, no reference to a
  remote definition and a protocol other than \<^verbatim>\<open>sftp\<close> gets 21 when its protocol is
  \<^verbatim>\<open>ftp\<close> and 22 otherwise.
\<close>

theorem getConfig_port:
  assumes "getConfig e fs c useProfile = (Inr sc, c')"
    and "selectProfile e (svc_config fs) useProfile = Inr selected"
  shows "\<exists>complete c1.
           getCompleteConfig e (svc_workspace fs) c selected = (Inr complete, c1)
           \<and> get_prop (sc_fields sc) ''port'' =
               (if get_prop complete ''port'' = JUndefined then
                  (if get_prop complete ''protocol'' = JStr ''ftp'' then JNum 21 else JNum 22)
                else get_prop complete ''port'')
           \<and> (get_prop (own_props selected) ''port'' \<noteq> JUndefined
                \<longrightarrow> get_prop (sc_fields sc) ''port'' = get_prop (own_props selected) ''port'')
           \<and> (get_prop (own_props selected) ''port'' = JUndefined
                \<and> \<not> truthy (read e selected ''remote'')
                \<and> read e selected ''protocol'' \<noteq> JStr ''sftp''
                \<longrightarrow> get_prop (sc_fields sc) ''port'' =
                      (if get_prop (own_props selected) ''protocol'' = JStr ''ftp''
                       then JNum 21 else JNum 22))"
proof -
  from assms obtain complete c1 where
    cc: "getCompleteConfig e (svc_workspace fs) c selected = (Inr complete, c1)" and
    r: "resolveServiceConfig e fs c1 complete = (Inr sc, c')"
    by (rule getConfig_stages)
  note p = resolveServiceConfig_port[OF r]
  have a: "get_prop (own_props selected) ''port'' \<noteq> JUndefined
                \<longrightarrow> get_prop (sc_fields sc) ''port'' = get_prop (own_props selected) ''port''"
  proof
    assume d: "get_prop (own_props selected) ''port'' \<noteq> JUndefined"
    have "get_prop complete ''port'' = get_prop (own_props selected) ''port''"
      using cc d by (rule getCompleteConfig_defined) simp_all
    with p d show "get_prop (sc_fields sc) ''port'' = get_prop (own_props selected) ''port''"
      by simp
  qed
  have b: "get_prop (own_props selected) ''port'' = JUndefined
                \<and> \<not> truthy (read e selected ''remote'')
                \<and> read e selected ''protocol'' \<noteq> JStr ''sftp''
                \<longrightarrow> get_prop (sc_fields sc) ''port'' =
                      (if get_prop (own_props selected) ''protocol'' = JStr ''ftp''
                       then JNum 21 else JNum 22)"
  proof
    assume h: "get_prop (own_props selected) ''port'' = JUndefined
                \<and> \<not> truthy (read e selected ''remote'')
                \<and> read e selected ''protocol'' \<noteq> JStr ''sftp''"
    from h have nr: "\<not> truthy (read e selected ''remote'')"
      and ns: "read e selected ''protocol'' \<noteq> JStr ''sftp''" by simp_all
    have "get_prop complete ''port'' = get_prop (own_props selected) ''port''"
      using cc nr ns by (rule getCompleteConfig_no_merge) simp_all
    moreover have "get_prop complete ''protocol'' = get_prop (own_props selected) ''protocol''"
      using cc nr ns by (rule getCompleteConfig_no_merge) simp_all
    ultimately have "get_prop complete ''port'' = get_prop (own_props selected) ''port''"
      and "get_prop complete ''protocol'' = get_prop (own_props selected) ''protocol''"
      by simp_all
    with p h show "get_prop (sc_fields sc) ''port'' =
                      (if get_prop (own_props selected) ''protocol'' = JStr ''ftp''
                       then JNum 21 else JNum 22)"
      by simp
  qed
  from cc p a b show ?thesis by blast
qed

text \<open>
  The claim as stated gives 21 or 22 to every input configuration with no explicit port.
  The example that refers to the remote definition \<^verbatim>\<open>staging\<close> has no port; it is resolved
  with the protocol \<^verbatim>\<open>ftp\<close> and the port 2121 of the remote definition.
\<close>

theorem getConfig_port_counterexample:
  "get_prop example_remote_config ''port'' = JUndefined
   \<and> (case fst (getConfig example_env (example_service example_remote_config None) [] []) of
        Inl err \<Rightarrow> False
      | Inr sc \<Rightarrow> get_prop (sc_fields sc) ''protocol'' = JStr ''ftp''
                  \<and> get_prop (sc_fields sc) ''port'' = JNum 2121)"
  by (simp add: eval_defs example_remote_config_def example_remote_def entries_of_def
      mergeRemoteEntry_def remoteTargetKey_def setConfigValue_def example_parseInt_def
      is_digit_def)

text \<open>
  The theorem at work: FTP without a port, SFTP without a port (and without an SSH
  configuration file), and a configuration that sets port 2222.
\<close>

lemma example_sftp_complete:
  "getCompleteConfig example_env ''/w'' []
     (plain [(''host'', JStr ''h''), (''protocol'', JStr ''sftp''), (''remotePath'', JStr ''/r'')])
   = (Inr [(''host'', JStr ''h''), (''protocol'', JStr ''sftp''), (''remotePath'', JStr ''/r'')], [])"
  by (simp add: eval_defs mergeSshConfig_def DEFAULT_SSHCONFIG_FILE_def cache_get_def)

theorem getConfig_port_witness:
  "(case fst (getConfig example_env (example_service example_ftp_config None) [] []) of
      Inl err \<Rightarrow> False
    | Inr sc \<Rightarrow> get_prop (sc_fields sc) ''port'' = JNum 21)
   \<and> (case fst (getConfig example_env
                  (example_service [(''host'', JStr ''h''), (''protocol'', JStr ''sftp''),
                                    (''remotePath'', JStr ''/r'')] None) [] []) of
      Inl err \<Rightarrow> False
    | Inr sc \<Rightarrow> get_prop (sc_fields sc) ''port'' = JNum 22)
   \<and> (case fst (getConfig example_env
                  (example_service ((''port'', JNum 2222) # example_ftp_config) None) [] []) of
      Inl err \<Rightarrow> False
    | Inr sc \<Rightarrow> get_prop (sc_fields sc) ''port'' = JNum 2222)"
proof -
  let ?cfg2 = "[(''host'', JStr ''h''), (''protocol'', JStr ''sftp''), (''remotePath'', JStr ''/r'')]"
  let ?cfg3 = "(''port'', JNum 2222) # example_ftp_config"
  have sel: "\<And>cfg. selectProfile example_env (svc_config (example_service cfg None)) []
                      = Inr (plain cfg)"
    by (simp add: selectProfile_def example_service_def)
  obtain sc1 c1 where r1: "getConfig example_env (example_service example_ftp_config None) [] [] = (Inr sc1, c1)"
    by (simp add: eval_defs example_ftp_config_def)
  obtain sc2 c2 where r2: "getConfig example_env (example_service ?cfg2 None) [] [] = (Inr sc2, c2)"
    by (simp add: eval_defs mergeSshConfig_def DEFAULT_SSHCONFIG_FILE_def cache_get_def)
  obtain sc3 c3 where r3: "getConfig example_env (example_service ?cfg3 None) [] [] = (Inr sc3, c3)"
    by (simp add: eval_defs example_ftp_config_def)
  have "get_prop (sc_fields sc1) ''port'' = JNum 21"
    using getConfig_port[OF r1 sel]
    by (auto simp: plain_def read_def get_prop_def example_ftp_config_def)
  moreover have "get_prop (sc_fields sc2) ''port'' = JNum 22"
  proof -
    from getConfig_port[OF r2 sel] obtain complete c1 where
      cc: "getCompleteConfig example_env (svc_workspace (example_service ?cfg2 None)) []
             (plain ?cfg2) = (Inr complete, c1)" and
      p: "get_prop (sc_fields sc2) ''port'' =
               (if get_prop complete ''port'' = JUndefined then
                  (if get_prop complete ''protocol'' = JStr ''ftp'' then JNum 21 else JNum 22)
                else get_prop complete ''port'')"
      by blast
    from cc have "complete = ?cfg2"
      by (simp add: example_service_def example_sftp_complete)
    with p show ?thesis by (simp add: get_prop_def)
  qed
  moreover have "get_prop (sc_fields sc3) ''port'' = JNum 2222"
    using getConfig_port[OF r3 sel]
    by (auto simp: plain_def get_prop_def)
  ultimately show ?thesis using r1 r2 r3 by simp
qed

section \<open>Unknown profiles\<close>

lemma member_JObj_absent:
  "k \<notin> fst ` set ps \<Longrightarrow> k \<notin> set object_prototype_names \<Longrightarrow> member e (JObj ps) k = JUndefined"
  by (simp add: member_def inherited_object_def map_of_eq_None_iff[THEN iffD2])

lemma hasProfiles_JObj:
  "get_prop cfg ''profiles'' = JObj ps \<Longrightarrow> hasProfiles e cfg = (ps \<noteq> [])"
  by (simp add: hasProfiles_def keys_of_def)

lemma selectProfile_no_profiles:
  "\<not> hasProfiles e cfg \<Longrightarrow> selectProfile e cfg useProfile = Inr (plain cfg)"
  by (simp add: selectProfile_def)

text \<open>
  Claim C8, as the code has it. When the configuration declares at least one profile and
  a profile name is requested that is not among the declared ones, and is not the name
  of a member that every object inherits, \<^verbatim>\<open>getConfig\<close> fails with the unknown-profile
  error. When the configuration declares no profile (no \<^verbatim>\<open>profiles\<close> mapping, or an empty
  one), the requested name is not looked at: the call does what the call without a
  profile does.
\<close>

theorem getConfig_unknown_profile:
  "(get_prop (svc_config fs) ''profiles'' = JObj ps \<and> ps \<noteq> [] \<and> useProfile \<noteq> []
      \<and> useProfile \<notin> fst ` set ps \<and> useProfile \<notin> set object_prototype_names
    \<longrightarrow> getConfig e fs c useProfile = (Inl (UnknownProfile useProfile), c))
   \<and> (\<not> hasProfiles e (svc_config fs)
    \<longrightarrow> getConfig e fs c useProfile = getConfig e fs c [])"
proof (intro conjI impI)
  assume a: "get_prop (svc_config fs) ''profiles'' = JObj ps \<and> ps \<noteq> [] \<and> useProfile \<noteq> []
      \<and> useProfile \<notin> fst ` set ps \<and> useProfile \<notin> set object_prototype_names"
  then have "hasProfiles e (svc_config fs)" by (simp add: hasProfiles_JObj)
  moreover have "member e (get_prop (svc_config fs) ''profiles'') useProfile = JUndefined"
    using a by (simp add: member_JObj_absent)
  ultimately have "selectProfile e (svc_config fs) useProfile = Inl (UnknownProfile useProfile)"
    using a by (simp add: selectProfile_def)
  then show "getConfig e fs c useProfile = (Inl (UnknownProfile useProfile), c)"
    by (simp add: getConfig_def)
next
  assume "\<not> hasProfiles e (svc_config fs)"
  then show "getConfig e fs c useProfile = getConfig e fs c []"
    by (simp add: getConfig_def selectProfile_no_profiles)
qed

text \<open>
  The theorem at work: a name that the configuration with the profile \<^verbatim>\<open>prod\<close> does not
  declare, and a request to a configuration without profiles.
\<close>

theorem getConfig_unknown_profile_witness:
  "getConfig example_env (example_service example_profile_config None) [] ''test''
     = (Inl (UnknownProfile ''test''), [])
   \<and> getConfig example_env (example_service example_ftp_config None) [] ''test''
     = getConfig example_env (example_service example_ftp_config None) [] []"
  using getConfig_unknown_profile[of "example_service example_profile_config None"
      "[(''prod'', JObj [(''host'', JStr ''p.example.com'')])]" "''test''" example_env "[]"]
    getConfig_unknown_profile[of "example_service example_ftp_config None" "[]" "''test''" example_env "[]"]
  by (simp add: example_service_def example_profile_config_def example_ftp_config_def
      get_prop_def hasProfiles_def inherited_object_def object_prototype_names_def)

text \<open>
  The claim as stated includes the configuration that declares no profiles. For such a
  configuration a request for the profile \<^verbatim>\<open>prod\<close> does not fail: it returns the resolved
  base configuration.
\<close>

theorem getConfig_unknown_profile_counterexample:
  "(case fst (getConfig example_env (example_service example_ftp_config None) [] ''prod'') of
      Inl err \<Rightarrow> False
    | Inr sc \<Rightarrow> sc_fields sc =
        [(''host'', JStr ''dev.example.com''), (''protocol'', JStr ''ftp''),
         (''username'', JStr ''u''), (''remotePath'', JStr ''/var/www''),
         (''concurrency'', JNum 1), (''port'', JNum 21)])"
  by (simp add: eval_defs example_ftp_config_def)

text \<open>
  A requested name that \<^verbatim>\<open>Object.prototype\<close> defines is found by the lookup
  \<^verbatim>\<open>config.profiles[useProfile]\<close> although no profile of that name is declared: the built-in
  member has no keys to merge, and the base configuration is resolved.
\<close>

lemma getConfig_inherited_profile_name:
  "(case fst (getConfig example_env (example_service example_profile_config None) [] ''constructor'') of
      Inl err \<Rightarrow> False
    | Inr sc \<Rightarrow> get_prop (sc_fields sc) ''host'' = JStr ''dev.example.com'')"
  by (simp add: eval_defs example_profile_config_def merge_eval_defs)

section \<open>Validation in getConfig\<close>

text \<open>
  \<^verbatim>\<open>getConfig\<close> throws when the validator's result is falsy. The result of \<^verbatim>\<open>validateConfig\<close>
  is an object, hence truthy, whether the schema accepts or rejects: with it as the
  validator the validation step never throws.
\<close>

lemma checkValidator_validateConfig:
  "svc_configValidator fs = Some (validateConfig validate) \<Longrightarrow> checkValidator fs cc = Inr cc"
  by (simp add: checkValidator_def validateConfig_def split: option.splits)

text \<open>
  Claim C1 says that \<^verbatim>\<open>getConfig\<close> fails when the installed validator rejects the resolved
  configuration. The code at a configuration without \<^verbatim>\<open>host\<close>, with \<^verbatim>\<open>validateConfig\<close> over a
  schema that requires \<^verbatim>\<open>host\<close>: the validator reports the error, and \<^verbatim>\<open>getConfig\<close> returns
  the resolved configuration all the same.
\<close>

theorem getConfig_returns_rejected_config:
  "validateConfig example_schema
     [(''protocol'', JStr ''ftp''), (''username'', JStr ''u''), (''remotePath'', JStr ''/var/www'')]
     = JObj [(''message'', JStr ''host is required'')]
   \<and> getConfig example_env
         (example_service example_invalid_config (Some (validateConfig example_schema))) [] []
     = (Inr \<lparr>sc_fields =
               [(''protocol'', JStr ''ftp''), (''username'', JStr ''u''),
                (''remotePath'', JStr ''/var/www''), (''port'', JNum 21),
                (''concurrency'', JNum 1)],
             sc_ignore = None\<rparr>, [])"
  by (simp add: eval_defs example_invalid_config_def validateConfig_def example_schema_def)

text \<open>
  A validator of the other convention, which returns the error or \<^verbatim>\<open>undefined\<close>: the same
  test makes \<^verbatim>\<open>getConfig\<close> throw when such a validator accepts the configuration.
\<close>

lemma getConfig_throws_on_undefined_result:
  "getConfig example_env (example_service example_ftp_config (Some (\<lambda>cfg. JUndefined))) [] []
     = (Inl (ValidationFailed JUndefined), [])"
  by (simp add: eval_defs example_ftp_config_def)

section \<open>Merging a referenced remote definition\<close>

lemma spec_remoteField_rootPath: "spec_remoteField e entries ''rootPath'' = JUndefined"
  by (induction entries) (auto simp: remoteTargetKey_def)

lemma spec_remoteField_scheme: "spec_remoteField e entries ''scheme'' = JUndefined"
  by (induction entries) (auto simp: remoteTargetKey_def)

text \<open>A name that the configuration inherits is defined there: no remote field is set for it.\<close>

lemma setConfigValue_inherited_name:
  "key \<in> set object_prototype_names \<Longrightarrow> map_of config key = None \<Longrightarrow>
   setConfigValue e config key v = config"
  by (simp add: setConfigValue_def get_prop_def inherited_object_def)

text \<open>
  Claim C9. When the configuration refers to a remote definition: if the definition
  cannot be found, the merge, and with it the resolution, fails with the
  remote-not-found error. If it is found, the merge works on the copy \<^verbatim>\<open>{ ...config }\<close>:
  every key that is defined there (as the read \<^verbatim>\<open>config[key]\<close> sees it) keeps its value,
  and every other key gets the field that the remote definition offers for it, where
  \<^verbatim>\<open>scheme\<close> is offered as \<^verbatim>\<open>protocol\<close> and \<^verbatim>\<open>rootPath\<close> is not offered: the keys \<^verbatim>\<open>rootPath\<close> and
  \<^verbatim>\<open>scheme\<close> of the result are those of the configuration. For a protocol other than
  \<^verbatim>\<open>sftp\<close> this is the whole of \<^verbatim>\<open>mergeConfigWithExternalRefer\<close>; for \<^verbatim>\<open>sftp\<close> the SSH
  configuration is merged afterwards, and every key other than \<^verbatim>\<open>host\<close> that is defined
  after the remote merge still has that value in the result.
\<close>

theorem mergeRemote_set_if_undefined:
  assumes "truthy (read e config ''remote'')"
  shows "(userRemotes e (read e config ''remote'') = None \<longrightarrow>
            mergeConfigWithExternalRefer e c config
              = (Inl (RemoteNotFound (read e config ''remote'')), c)
            \<and> getCompleteConfig e ws c config
              = (Inl (RemoteNotFound (read e config ''remote'')), c))
       \<and> (\<forall>remote. userRemotes e (read e config ''remote'') = Some remote \<longrightarrow>
            (\<exists>merged. mergeRemote e config = Inr merged
               \<and> (\<forall>key. get_prop merged key =
                     (if get_prop (own_props config) key \<noteq> JUndefined
                      then get_prop (own_props config) key
                      else spec_remoteField e (entries_of remote) key))
               \<and> get_prop merged ''rootPath'' = get_prop (own_props config) ''rootPath''
               \<and> get_prop merged ''scheme'' = get_prop (own_props config) ''scheme''
               \<and> (read e config ''protocol'' \<noteq> JStr ''sftp'' \<longrightarrow>
                    mergeConfigWithExternalRefer e c config = (Inr merged, c))
               \<and> (\<forall>result c'. mergeConfigWithExternalRefer e c config = (Inr result, c') \<longrightarrow>
                    (\<forall>key. key \<noteq> ''host'' \<and> get_prop merged key \<noteq> JUndefined \<longrightarrow>
                       get_prop result key = get_prop merged key))))"
proof (intro conjI allI impI)
  assume n: "userRemotes e (read e config ''remote'') = None"
  then have m: "mergeRemote e config = Inl (RemoteNotFound (read e config ''remote''))"
    using assms by (simp add: mergeRemote_def)
  then show "mergeConfigWithExternalRefer e c config
              = (Inl (RemoteNotFound (read e config ''remote'')), c)"
    by (simp add: mergeConfigWithExternalRefer_def)
  then show "getCompleteConfig e ws c config
              = (Inl (RemoteNotFound (read e config ''remote'')), c)"
    by (simp add: getCompleteConfig_def)
next
  fix remote
  assume s: "userRemotes e (read e config ''remote'') = Some remote"
  let ?merged = "foldl (mergeRemoteEntry e) (own_props config) (entries_of remote)"
  have m: "mergeRemote e config = Inr ?merged"
    using assms s by (simp add: mergeRemote_def)
  have k: "\<And>key. get_prop ?merged key =
                     (if get_prop (own_props config) key \<noteq> JUndefined
                      then get_prop (own_props config) key
                      else spec_remoteField e (entries_of remote) key)"
    by (rule get_foldl_mergeRemoteEntry)
  have r: "get_prop ?merged ''rootPath'' = get_prop (own_props config) ''rootPath''"
    by (simp add: k spec_remoteField_rootPath)
  have sc: "get_prop ?merged ''scheme'' = get_prop (own_props config) ''scheme''"
    by (simp add: k spec_remoteField_scheme)
  have w: "read e config ''protocol'' \<noteq> JStr ''sftp'' \<longrightarrow>
             mergeConfigWithExternalRefer e c config = (Inr ?merged, c)"
    by (simp add: mergeConfigWithExternalRefer_def m)
  have a: "\<forall>result c'. mergeConfigWithExternalRefer e c config = (Inr result, c') \<longrightarrow>
                    (\<forall>key. key \<noteq> ''host'' \<and> get_prop ?merged key \<noteq> JUndefined \<longrightarrow>
                       get_prop result key = get_prop ?merged key)"
    using mergeConfigWithExternalRefer_after_remote[OF _ m] by blast
  show "\<exists>merged. mergeRemote e config = Inr merged
               \<and> (\<forall>key. get_prop merged key =
                     (if get_prop (own_props config) key \<noteq> JUndefined
                      then get_prop (own_props config) key
                      else spec_remoteField e (entries_of remote) key))
               \<and> get_prop merged ''rootPath'' = get_prop (own_props config) ''rootPath''
               \<and> get_prop merged ''scheme'' = get_prop (own_props config) ''scheme''
               \<and> (read e config ''protocol'' \<noteq> JStr ''sftp'' \<longrightarrow>
                    mergeConfigWithExternalRefer e c config = (Inr merged, c))
               \<and> (\<forall>result c'. mergeConfigWithExternalRefer e c config = (Inr result, c') \<longrightarrow>
                    (\<forall>key. key \<noteq> ''host'' \<and> get_prop merged key \<noteq> JUndefined \<longrightarrow>
                       get_prop result key = get_prop merged key))"
    using m k r sc w a by blast
qed

text \<open>
  The theorem at work: a reference to a remote definition that does not exist, and the
  reference to \<^verbatim>\<open>staging\<close> from a configuration that sets its own host.
\<close>

lemma example_remote_fields:
  "spec_remoteField example_env (entries_of example_remote) ''protocol'' = JStr ''ftp''"
  "spec_remoteField example_env (entries_of example_remote) ''port'' = JNum 2121"
  "spec_remoteField example_env (entries_of example_remote) ''username'' = JStr ''deploy''"
  "spec_remoteField example_env (entries_of example_remote) ''host'' = JStr ''staging.example.com''"
  by (simp_all add: entries_of_def example_remote_def get_prop_def remoteTargetKey_def
      storedValue_def example_env_def example_parseInt_def is_digit_def)

theorem mergeRemote_set_if_undefined_witness:
  "mergeConfigWithExternalRefer example_env [] (plain [(''remote'', JStr ''production'')])
     = (Inl (RemoteNotFound (JStr ''production'')), [])
   \<and> (case fst (mergeConfigWithExternalRefer example_env [] (plain example_remote_config)) of
         Inl err \<Rightarrow> False
       | Inr merged \<Rightarrow>
           get_prop merged ''host'' = JStr ''dev.example.com''
           \<and> get_prop merged ''protocol'' = JStr ''ftp''
           \<and> get_prop merged ''port'' = JNum 2121
           \<and> get_prop merged ''username'' = JStr ''deploy''
           \<and> get_prop merged ''scheme'' = JUndefined
           \<and> get_prop merged ''rootPath'' = JUndefined)"
proof -
  let ?c1 = "plain [(''remote'', JStr ''production'')]"
  let ?c2 = "plain example_remote_config"
  have t1: "truthy (read example_env ?c1 ''remote'')"
    by (simp add: read_plain get_prop_def)
  have n1: "userRemotes example_env (read example_env ?c1 ''remote'') = None"
    by (simp add: read_plain get_prop_def example_env_def)
  have first: "mergeConfigWithExternalRefer example_env [] ?c1
     = (Inl (RemoteNotFound (JStr ''production'')), [])"
    using mergeRemote_set_if_undefined[OF t1, of "[]" "[]"] n1
    by (simp add: read_plain get_prop_def)
  have t2: "truthy (read example_env ?c2 ''remote'')"
    by (simp add: read_plain get_prop_def example_remote_config_def)
  have s2: "userRemotes example_env (read example_env ?c2 ''remote'') = Some example_remote"
    by (simp add: read_plain get_prop_def example_env_def example_remote_config_def)
  have p2: "read example_env ?c2 ''protocol'' \<noteq> JStr ''sftp''"
    by (simp add: read_plain get_prop_def example_remote_config_def)
  from mergeRemote_set_if_undefined[OF t2, of "[]" "[]"] s2 p2
  obtain merged where
    k: "\<And>key. get_prop merged key =
                     (if get_prop (own_props ?c2) key \<noteq> JUndefined
                      then get_prop (own_props ?c2) key
                      else spec_remoteField example_env (entries_of example_remote) key)" and
    r: "get_prop merged ''rootPath'' = get_prop (own_props ?c2) ''rootPath''" and
    sc: "get_prop merged ''scheme'' = get_prop (own_props ?c2) ''scheme''" and
    w: "mergeConfigWithExternalRefer example_env [] ?c2 = (Inr merged, [])"
    by blast
  have c: "get_prop (own_props ?c2) ''host'' = JStr ''dev.example.com''"
      "get_prop (own_props ?c2) ''protocol'' = JUndefined"
      "get_prop (own_props ?c2) ''port'' = JUndefined"
      "get_prop (own_props ?c2) ''username'' = JUndefined"
      "get_prop (own_props ?c2) ''scheme'' = JUndefined"
      "get_prop (own_props ?c2) ''rootPath'' = JUndefined"
    by (simp_all add: plain_def get_prop_def example_remote_config_def inherited_object_def
        object_prototype_names_def)
  have "get_prop merged ''host'' = JStr ''dev.example.com''"
       "get_prop merged ''protocol'' = JStr ''ftp''"
       "get_prop merged ''port'' = JNum 2121"
       "get_prop merged ''username'' = JStr ''deploy''"
       "get_prop merged ''scheme'' = JUndefined"
       "get_prop merged ''rootPath'' = JUndefined"
    using r sc by (simp_all add: k c example_remote_fields)
  then show ?thesis using first w by simp
qed

section \<open>The ignore predicate\<close>

text \<open>
  Claim C4. When the combined pattern list is not empty, \<^verbatim>\<open>_createIgnoreFn\<close> returns a
  predicate. Applied to a path, the predicate takes the path relative to the base
  directory when the normalized path starts with the base directory, and relative to the
  configuration's remote path otherwise; it is false when that relative path is empty,
  and otherwise it is true exactly when the relative path matches the compiled rules.
\<close>

theorem createIgnoreFn_predicate:
  assumes "filesIgnoredFromConfig e c cfg = (Inr patterns, c')" and "patterns \<noteq> []"
  shows "\<exists>f. createIgnoreFn e base c cfg = (Inr (Some f), c')
           \<and> (\<forall>fsPath. f fsPath =
                 (let relativePath =
                        (if startsWith (path_normalize e fsPath) base
                         then path_relative e base fsPath
                         else upath_relative e (get_prop cfg ''remotePath'') fsPath)
                  in relativePath \<noteq> [] \<and> ignores e patterns relativePath))"
  using assms by (simp add: createIgnoreFn_def ignoreFn_def Let_def)

text \<open>
  The theorem at work, with the pattern \<^verbatim>\<open>node_modules\<close>: the two roots are not ignored,
  the directory \<^verbatim>\<open>node_modules\<close> is ignored below either root.
\<close>

theorem createIgnoreFn_predicate_witness:
  "(case fst (createIgnoreFn example_env ''/w'' [] example_ftp_config) of
      Inr (Some f) \<Rightarrow>
        f ''/w'' = False \<and> f ''/w/node_modules'' = True \<and> f ''/w/src'' = False
        \<and> f ''/var/www'' = False \<and> f ''/var/www/node_modules'' = True
    | _ \<Rightarrow> False)"
proof -
  have p: "filesIgnoredFromConfig example_env [] example_ftp_config = (Inr [JStr ''node_modules''], [])"
    by (simp add: filesIgnoredFromConfig_def example_ftp_config_def get_prop_def
        inherited_object_def object_prototype_names_def)
  have ne: "[JStr ''node_modules''] \<noteq> []" by simp
  from createIgnoreFn_predicate[OF p ne, of "''/w''"]
  obtain f where f: "createIgnoreFn example_env ''/w'' [] example_ftp_config = (Inr (Some f), [])"
    and spec: "\<And>fsPath. f fsPath =
                 (let relativePath =
                        (if startsWith (path_normalize example_env fsPath) ''/w''
                         then path_relative example_env ''/w'' fsPath
                         else upath_relative example_env (get_prop example_ftp_config ''remotePath'') fsPath)
                  in relativePath \<noteq> [] \<and> ignores example_env [JStr ''node_modules''] relativePath)"
    by blast
  have "f ''/w'' = False" "f ''/w/node_modules'' = True" "f ''/w/src'' = False"
       "f ''/var/www'' = False" "f ''/var/www/node_modules'' = True"
    by (simp_all add: spec example_env_def example_relative_def startsWith_def
        example_ftp_config_def get_prop_def)
  then show ?thesis using f by simp
qed

section \<open>Cancelling all transfers\<close>

lemma stop_all_schedulers:
  "w_schedulers (foldl handle_stop w hs) h =
     (if h \<in> set hs then (w_schedulers w h)\<lparr>sch_queue := []\<rparr> else w_schedulers w h)"
  by (induction hs arbitrary: w)
     (auto simp: handle_stop_def scheduler_empty_def update_scheduler_def)

lemma stop_all_rest:
  "w_service (foldl handle_stop w hs) = w_service w"
  "w_cancel_calls (foldl handle_stop w hs) = w_cancel_calls w"
  by (induction hs arbitrary: w)
     (auto simp: handle_stop_def scheduler_empty_def update_scheduler_def)

lemma cancel_all_calls:
  "w_cancel_calls (foldl task_cancel w ts) = w_cancel_calls w @ ts"
  by (induction ts arbitrary: w) (auto simp: task_cancel_def)

lemma cancel_all_rest:
  "w_service (foldl task_cancel w ts) = w_service w"
  "w_schedulers (foldl task_cancel w ts) = w_schedulers w"
  by (induction ts arbitrary: w) (auto simp: task_cancel_def)

lemma cancelTransferTasks_nothing_to_do:
  assumes "svc_transferSchedulers (w_service w) = []"
    and "svc_pendingTransferTasks (w_service w) = []"
  shows "cancelTransferTasks w = w"
proof -
  have "(w_service w)\<lparr>svc_transferSchedulers := []\<rparr> = w_service w"
       "(w_service w)\<lparr>svc_pendingTransferTasks := []\<rparr> = w_service w"
    using assms by (cases "w_service w"; simp)+
  then show ?thesis using assms
    by (simp add: cancelTransferTasks_def Let_def)
qed

lemma cancelTransferTasks_lists:
  "svc_transferSchedulers (w_service (cancelTransferTasks w)) = []"
  "svc_pendingTransferTasks (w_service (cancelTransferTasks w)) = []"
  by (simp_all add: cancelTransferTasks_def Let_def cancel_all_rest)

text \<open>
  Claim C3. After \<^verbatim>\<open>cancelTransferTasks()\<close>: every scheduler that was in the list of active
  schedulers has an empty queue (its running tasks are as they were), \<^verbatim>\<open>cancel()\<close> has been
  invoked on every task that was in the set of pending tasks, once each and in the set's
  order, and the list and the set are empty. A second call changes nothing: the state
  is the same, so no further \<^verbatim>\<open>cancel()\<close> is invoked.
\<close>

theorem cancelTransferTasks_clears:
  "(\<forall>h \<in> set (svc_transferSchedulers (w_service w)).
       sch_queue (w_schedulers (cancelTransferTasks w) h) = []
       \<and> sch_running (w_schedulers (cancelTransferTasks w) h) = sch_running (w_schedulers w h))
   \<and> w_cancel_calls (cancelTransferTasks w)
       = w_cancel_calls w @ svc_pendingTransferTasks (w_service w)
   \<and> svc_transferSchedulers (w_service (cancelTransferTasks w)) = []
   \<and> svc_pendingTransferTasks (w_service (cancelTransferTasks w)) = []
   \<and> cancelTransferTasks (cancelTransferTasks w) = cancelTransferTasks w"
proof (intro conjI ballI)
  fix h assume "h \<in> set (svc_transferSchedulers (w_service w))"
  then show "sch_queue (w_schedulers (cancelTransferTasks w) h) = []"
    and "sch_running (w_schedulers (cancelTransferTasks w) h) = sch_running (w_schedulers w h)"
    by (simp_all add: cancelTransferTasks_def Let_def cancel_all_rest stop_all_schedulers)
next
  show "w_cancel_calls (cancelTransferTasks w)
       = w_cancel_calls w @ svc_pendingTransferTasks (w_service w)"
    by (simp add: cancelTransferTasks_def Let_def cancel_all_calls stop_all_rest)
next
  show "svc_transferSchedulers (w_service (cancelTransferTasks w)) = []"
    by (rule cancelTransferTasks_lists)
next
  show "svc_pendingTransferTasks (w_service (cancelTransferTasks w)) = []"
    by (rule cancelTransferTasks_lists)
next
  show "cancelTransferTasks (cancelTransferTasks w) = cancelTransferTasks w"
    by (rule cancelTransferTasks_nothing_to_do) (rule cancelTransferTasks_lists)+
qed


text \<open>
  The theorem at work, on a service with two schedulers: task 7 is running, task 8 is
  queued behind it, task 9 is queued on the second scheduler.
\<close>

lemma example_busy_world_facts:
  "svc_transferSchedulers (w_service example_busy_world) = [0, 1]"
  "svc_pendingTransferTasks (w_service example_busy_world) = [7]"
  "sch_queue (w_schedulers example_busy_world 0) = [8]"
  "sch_running (w_schedulers example_busy_world 0) = [7]"
  "sch_queue (w_schedulers example_busy_world 1) = [9]"
  "sch_running (w_schedulers example_busy_world 1) = []"
  "w_cancel_calls example_busy_world = []"
  by (simp_all add: world_defs)

theorem cancelTransferTasks_clears_witness:
  "sch_queue (w_schedulers (cancelTransferTasks example_busy_world) 0) = []
   \<and> sch_running (w_schedulers (cancelTransferTasks example_busy_world) 0) = [7]
   \<and> sch_queue (w_schedulers (cancelTransferTasks example_busy_world) 1) = []
   \<and> w_cancel_calls (cancelTransferTasks example_busy_world) = [7]
   \<and> svc_transferSchedulers (w_service (cancelTransferTasks example_busy_world)) = []
   \<and> svc_pendingTransferTasks (w_service (cancelTransferTasks example_busy_world)) = []
   \<and> w_cancel_calls (cancelTransferTasks (cancelTransferTasks example_busy_world)) = [7]"
  using cancelTransferTasks_clears[of example_busy_world]
  by (simp add: example_busy_world_facts)

section \<open>run() and the list of active schedulers\<close>

text \<open>
  Neither the handle nor the class has a member \<^verbatim>\<open>_removeScheduler\<close>: the call raises.
  Hence \<^verbatim>\<open>run()\<close> and the completion of tasks leave the list of active schedulers and
  the resolved promises as they are.
\<close>

lemma removeScheduler_missing:
  "call_removeScheduler this w h = Inl (TypeError ''this._removeScheduler is not a function'')"
  by (cases this) (simp_all add: call_removeScheduler_def handle_members_def service_members_def)

lemma update_scheduler_keeps:
  "w_service (update_scheduler w h f) = w_service w"
  "w_resolved (update_scheduler w h f) = w_resolved w"
  by (simp_all add: update_scheduler_def)

lemma onTaskStart_all_keeps:
  "svc_transferSchedulers (w_service (foldl onTaskStart w ts)) = svc_transferSchedulers (w_service w)"
  "w_resolved (foldl onTaskStart w ts) = w_resolved w"
  by (induction ts arbitrary: w) (simp_all add: onTaskStart_def)

lemma dispatch_keeps:
  "svc_transferSchedulers (w_service (dispatch w h)) = svc_transferSchedulers (w_service w)"
  "w_resolved (dispatch w h) = w_resolved w"
  by (simp_all add: dispatch_def Let_def onTaskStart_all_keeps update_scheduler_keeps)

lemma fire_idle_keeps:
  "svc_transferSchedulers (w_service (fire_idle w cb)) = svc_transferSchedulers (w_service w)"
  "w_resolved (fire_idle w cb) = w_resolved w"
  by (cases cb; simp add: removeScheduler_missing)+

lemma fire_idle_all_keeps:
  "svc_transferSchedulers (w_service (foldl fire_idle w cbs)) = svc_transferSchedulers (w_service w)"
  "w_resolved (foldl fire_idle w cbs) = w_resolved w"
  by (induction cbs arbitrary: w) (simp_all add: fire_idle_keeps)

lemma task_done_keeps:
  "svc_transferSchedulers (w_service (task_done w h t err)) = svc_transferSchedulers (w_service w)"
  "w_resolved (task_done w h t err) = w_resolved w"
  by (simp_all add: task_done_def Let_def fire_idle_all_keeps dispatch_keeps update_scheduler_keeps
      onTaskDone_def)

lemma handle_run_keeps:
  "svc_transferSchedulers (w_service (snd (handle_run this w h))) = svc_transferSchedulers (w_service w)"
  "w_resolved (snd (handle_run this w h)) = w_resolved w"
  "fst (handle_run this w h) =
     (if scheduler_size w h \<le> 0
      then Inl (TypeError ''this._removeScheduler is not a function'')
      else Inr (w_next_promise w))"
  by (simp_all add: handle_run_def removeScheduler_missing Let_def scheduler_start_def
      scheduler_onIdle_def dispatch_keeps update_scheduler_keeps)

text \<open>
  Claim C2 says that \<^verbatim>\<open>run()\<close> resolves at once on a scheduler without work, resolves once
  the scheduler is idle otherwise, and that the scheduler has then left the list of
  active schedulers. The code on a fresh scheduler: \<^verbatim>\<open>run()\<close> throws and the scheduler
  stays listed. The code on a scheduler with one task: \<^verbatim>\<open>run()\<close> returns a promise and
  starts the task; when the task has completed the scheduler is idle, the promise has
  not resolved and the scheduler is still listed.
\<close>

theorem run_leaves_scheduler_listed:
  "handle_run (ThisHandle 0) (snd (createTransferScheduler example_world 4)) 0
     = (Inl (TypeError ''this._removeScheduler is not a function''),
        snd (createTransferScheduler example_world 4))
   \<and> svc_transferSchedulers (w_service (snd (createTransferScheduler example_world 4))) = [0]
   \<and> (let queued = handle_add (snd (createTransferScheduler example_world 4)) 0 7;
           started = handle_run (ThisHandle 0) queued 0;
           idle = task_done (snd started) 0 7 None
       in fst started = Inr 0
          \<and> sch_running (w_schedulers (snd started) 0) = [7]
          \<and> scheduler_size idle 0 = 0
          \<and> w_resolved idle = []
          \<and> svc_transferSchedulers (w_service idle) = [0]
          \<and> w_emitted idle =
              [BEFORE_TRANSFER 7, AFTER_TRANSFER None 7,
               Uncaught (TypeError ''this._removeScheduler is not a function'')])"
  by (simp add: world_defs task_done_def onTaskDone_def pending_delete_def
      removeScheduler_missing)

end
